theory Spec2Isabelle
  imports Complex_Main "HOL-Library.Sublist" "HOL-Library.Word" "HOL-Library.Log_Nat"
begin

section \<open>Python values shared by the modules\<close>

text \<open>
  Python \<open>str\<close> values are modelled as \<open>string\<close>, a list of 8-bit characters: the
  model covers text whose code points are below 256. Exceptions are values of
  \<open>py_error\<close>; a function that can raise returns \<open>py_error + 'a\<close>.
\<close>

datatype py_error = ValueError | KeyError | AttributeError | ZeroDivisionError | UnicodeDecodeError

definition is_digit :: "char \<Rightarrow> bool" where
  "is_digit c = (let n = (of_char c :: nat) in 48 \<le> n \<and> n \<le> 57)"

definition is_upper :: "char \<Rightarrow> bool" where
  "is_upper c = (let n = (of_char c :: nat) in 65 \<le> n \<and> n \<le> 90)"

definition is_lower :: "char \<Rightarrow> bool" where
  "is_lower c = (let n = (of_char c :: nat) in 97 \<le> n \<and> n \<le> 122)"

definition is_alpha :: "char \<Rightarrow> bool" where
  "is_alpha c = (is_upper c \<or> is_lower c)"

text \<open>\<open>str.isspace\<close> on code points below 256: TAB..CR, FS..US, space, NEL, NBSP.\<close>

definition is_space :: "char \<Rightarrow> bool" where
  "is_space c = (let n = (of_char c :: nat) in
     (9 \<le> n \<and> n \<le> 13) \<or> (28 \<le> n \<and> n \<le> 32) \<or> n = 133 \<or> n = 160)"

text \<open>\<open>str.strip()\<close>: drop leading and trailing whitespace.\<close>

definition lstrip :: "string \<Rightarrow> string" where
  "lstrip s = dropWhile is_space s"

definition rstrip :: "string \<Rightarrow> string" where
  "rstrip s = rev (dropWhile is_space (rev s))"

definition strip :: "string \<Rightarrow> string" where
  "strip s = rstrip (lstrip s)"

text \<open>\<open>s.startswith(p)\<close> is \<open>prefix p s\<close>, \<open>s.endswith(p)\<close> is \<open>suffix p s\<close> and
  \<open>p in s\<close> is \<open>sublist p s\<close> (a contiguous run), all from the list library.\<close>

definition startswith :: "string \<Rightarrow> string \<Rightarrow> bool" where
  "startswith s p = prefix p s"

definition endswith :: "string \<Rightarrow> string \<Rightarrow> bool" where
  "endswith s p = suffix p s"

definition py_in :: "string \<Rightarrow> string \<Rightarrow> bool" where
  "py_in p s = sublist p s"

text \<open>\<open>str.lower\<close> on code points below 256: A..Z and the Latin-1 capitals.\<close>

definition lower_char :: "char \<Rightarrow> char" where
  "lower_char c = (let n = (of_char c :: nat) in
     if (65 \<le> n \<and> n \<le> 90) \<or> (192 \<le> n \<and> n \<le> 222 \<and> n \<noteq> 215)
     then char_of (n + 32) else c)"

definition py_lower :: "string \<Rightarrow> string" where
  "py_lower s = map lower_char s"

text \<open>\<open>str.upper\<close> on code points below 256: a..z and the Latin-1 small letters, sharp s
  becoming \<open>SS\<close>. The capitals of U+00B5 and U+00FF lie above 255; the model leaves
  these two characters unchanged.\<close>

definition upper_char :: "char \<Rightarrow> string" where
  "upper_char c = (let n = (of_char c :: nat) in
     if (97 \<le> n \<and> n \<le> 122) \<or> (224 \<le> n \<and> n \<le> 254 \<and> n \<noteq> 247)
     then [char_of (n - 32)]
     else if n = 223 then ''SS'' else [c])"

definition py_upper :: "string \<Rightarrow> string" where
  "py_upper s = concat (map upper_char s)"

section \<open>Regular expressions as backtracking matchers\<close>

text \<open>
  A pattern is a function from the text still to be read to the list of texts that can
  remain after the pattern has matched a prefix, in the order in which Python's
  backtracking engine tries them (greedy first). \<open>re.match\<close> succeeds when the list is
  not empty.
\<close>

type_synonym matcher = "string \<Rightarrow> string list"

definition re_lit :: "string \<Rightarrow> matcher" where
  "re_lit p s = (if prefix p s then [drop (length p) s] else [])"

definition re_seq :: "matcher \<Rightarrow> matcher \<Rightarrow> matcher" where
  "re_seq m1 m2 s = concat (map m2 (m1 s))"

definition re_opt :: "matcher \<Rightarrow> matcher" where
  "re_opt m s = m s @ [s]"

text \<open>\<open>[class]{lo,}\<close> and \<open>[class]{lo,hi}\<close>: between \<open>lo\<close> and \<open>hi\<close> characters of the class,
  the longest run first.\<close>

definition re_class_range :: "(char \<Rightarrow> bool) \<Rightarrow> nat \<Rightarrow> nat option \<Rightarrow> matcher" where
  "re_class_range P lo hi s =
     (let n = length (takeWhile P s);
          m = (case hi of None \<Rightarrow> n | Some h \<Rightarrow> min h n)
      in map (\<lambda>k. drop k s) (rev [lo ..< Suc m]))"

text \<open>\<open>.*\<close>: any run of characters other than newline.\<close>

definition re_dot_star :: matcher where
  "re_dot_star = re_class_range (\<lambda>c. c \<noteq> CHR 0x0A) 0 None"

text \<open>\<open>$\<close> (no MULTILINE): at the end of the text, or just before a final newline.\<close>

definition re_eol :: matcher where
  "re_eol s = (if s = [] \<or> s = [CHR 0x0A] then [s] else [])"

definition re_match :: "matcher \<Rightarrow> string \<Rightarrow> bool" where
  "re_match m s = (m s \<noteq> [])"


section \<open>app/url\_utils.py\<close>

definition is_domain_char :: "char \<Rightarrow> bool" where
  "is_domain_char c = (is_alpha c \<or> is_digit c \<or> c = CHR ''.'' \<or> c = CHR ''-'')"

text \<open>
  \<^verbatim>\<open>^(https?://)?([A-Za-z0-9.-]+)(\.[A-Za-z]{2,})(:\d+)?(\/.*)?$\<close>
  (\<open>\d\<close> on code points below 256 is the ASCII digits).
\<close>

definition URL_REGEX :: matcher where
  "URL_REGEX =
     re_seq (re_opt (re_seq (re_lit ''http'') (re_seq (re_opt (re_lit ''s'')) (re_lit ''://''))))
    (re_seq (re_class_range is_domain_char 1 None)
    (re_seq (re_seq (re_lit ''.'') (re_class_range is_alpha 2 None))
    (re_seq (re_opt (re_seq (re_lit '':'') (re_class_range is_digit 1 None)))
    (re_seq (re_opt (re_seq (re_lit ''/'') re_dot_star))
     re_eol))))"

definition normalize_url :: "string \<Rightarrow> string" where
  "normalize_url url0 =
     (let url = strip url0
      in if \<not> (startswith url ''http://'' \<or> startswith url ''https://'')
         then ''https://'' @ url
         else url)"

definition is_valid_url :: "string \<Rightarrow> bool" where
  "is_valid_url url = (if \<not> re_match URL_REGEX url then False else True)"

text \<open>
  \<open>urllib.parse.urlparse\<close> and \<open>tldextract.extract\<close> are library functions; the model
  takes them as parameters. \<open>urlparse\<close> may raise \<open>ValueError\<close>; of its result the
  code reads \<open>scheme\<close> and \<open>hostname\<close> (\<open>None\<close> when the URL has no host).
  \<open>tldextract.extract\<close> gives the pair \<open>(domain, suffix)\<close>.
\<close>

record parse_result =
  parsed_scheme :: string
  parsed_hostname :: "string option"

type_synonym urlparse_fn = "string \<Rightarrow> py_error + parse_result"
type_synonym tldextract_fn = "string \<Rightarrow> string \<times> string"

definition extract_domain :: "tldextract_fn \<Rightarrow> string \<Rightarrow> string" where
  "extract_domain tldextract url = (case tldextract url of (d, sfx) \<Rightarrow> d @ ''.'' @ sfx)"

text \<open>The pair \<open>(False, reason)\<close> is \<open>Invalid reason\<close>, the pair \<open>(True, clean_url)\<close> is
  \<open>Valid clean_url\<close>.\<close>

datatype validation = Invalid string | Valid string

definition validate_and_normalize ::
  "urlparse_fn \<Rightarrow> tldextract_fn \<Rightarrow> string \<Rightarrow> py_error + validation" where
  "validate_and_normalize urlparse tldextract url0 =
     (let url = normalize_url url0
      in if \<not> is_valid_url url then Inr (Invalid ''Invalid URL format'')
         else case urlparse url of
           Inl e \<Rightarrow> Inl e
         | Inr parsed \<Rightarrow>
             if parsed_scheme parsed \<notin> {''http'', ''https''}
             then Inr (Invalid ''URL uses unsafe scheme'')
             else let domain = extract_domain tldextract url
                  in if domain = [] then Inr (Invalid ''Could not extract domain'')
                     else Inr (Valid url))"



section \<open>app/cache.py\<close>

text \<open>
  The world outside the process: the HTTP requests issued so far, in order, and the
  cache file \<open>cache/scans.json\<close>, which is \<open>None\<close> while it does not exist and
  otherwise holds the dict that \<open>json.load\<close> reads from it. A result payload is a value
  that JSON stores and gives back unchanged. The clock reading \<open>time.time()\<close> is an
  argument of the operation that reads it; \<open>hashlib.sha256(...).hexdigest()\<close> is a
  parameter.
\<close>

datatype http_method = HEAD | GET

record 'r cache_item =
  item_ts :: rat
  item_result :: 'r

record 'r world =
  requests :: "(http_method \<times> string) list"
  cache_file :: "(string \<rightharpoonup> 'r cache_item) option"

definition TTL :: rat where
  "TTL = 60 * 60 * 12"

definition cache_load :: "'r world \<Rightarrow> (string \<rightharpoonup> 'r cache_item)" where
  "cache_load w = (case cache_file w of None \<Rightarrow> Map.empty | Some d \<Rightarrow> d)"

definition cache_save :: "(string \<rightharpoonup> 'r cache_item) \<Rightarrow> 'r world \<Rightarrow> 'r world" where
  "cache_save d w = w\<lparr> cache_file := Some d \<rparr>"

definition cache_get ::
  "(string \<Rightarrow> string) \<Rightarrow> rat \<Rightarrow> string \<Rightarrow> 'r world \<Rightarrow> 'r option \<times> 'r world" where
  "cache_get sha256_hexdigest now url w =
     (let d = cache_load w;
          key = sha256_hexdigest url;
          item = d key
      in case item of
           None \<Rightarrow> (None, w)
         | Some it \<Rightarrow>
             if now - item_ts it > TTL
             then (let d = d(key := None) in (None, cache_save d w))
             else (Some (item_result it), w))"

definition cache_set ::
  "(string \<Rightarrow> string) \<Rightarrow> rat \<Rightarrow> string \<Rightarrow> 'r \<Rightarrow> 'r world \<Rightarrow> 'r world" where
  "cache_set sha256_hexdigest now url res w =
     (let d = cache_load w;
          key = sha256_hexdigest url;
          d = d(key \<mapsto> \<lparr> item_ts = now, item_result = res \<rparr>)
      in cache_save d w)"

section \<open>app/fetcher.py\<close>

text \<open>
  Bytes are 8-bit words; decoded text is a list of Unicode code points.
  \<open>bytes.decode\<close> (UTF-8, the default encoding) follows CPython's decoder: a
  malformed sequence is the longest prefix of a well-formed sequence that the input
  holds (a single byte when the first byte cannot start a sequence), and the
  \<open>errors\<close> argument says what happens to it: \<open>strict\<close> raises, \<open>ignore\<close> drops it,
  \<open>replace\<close> puts U+FFFD in its place.
\<close>

type_synonym byte = "8 word"

datatype decode_errors = Strict | Ignore | Replace

datatype decode_step = Decoded nat nat | Malformed nat

definition is_continuation :: "byte \<Rightarrow> bool" where
  "is_continuation b = (0x80 \<le> b \<and> b \<le> 0xBF)"

definition utf8_step :: "byte \<Rightarrow> byte list \<Rightarrow> decode_step" where
  "utf8_step ch rest =
     (if ch < 0x80 then Decoded (unat ch) 1
      else if ch < 0xC2 then Malformed 1
      else if ch < 0xE0 then
        (case rest of
           [] \<Rightarrow> Malformed 1
         | ch2 # _ \<Rightarrow>
             if \<not> is_continuation ch2 then Malformed 1
             else Decoded ((unat ch - 0xC0) * 64 + (unat ch2 - 0x80)) 2)
      else if ch < 0xF0 then
        (case rest of
           [] \<Rightarrow> Malformed 1
         | ch2 # rest2 \<Rightarrow>
             if \<not> is_continuation ch2 \<or> (if ch2 < 0xA0 then ch = 0xE0 else ch = 0xED)
             then Malformed 1
             else (case rest2 of
                     [] \<Rightarrow> Malformed 2
                   | ch3 # _ \<Rightarrow>
                       if \<not> is_continuation ch3 then Malformed 2
                       else Decoded ((unat ch - 0xE0) * 4096 + (unat ch2 - 0x80) * 64
                                     + (unat ch3 - 0x80)) 3))
      else if ch < 0xF5 then
        (case rest of
           [] \<Rightarrow> Malformed 1
         | ch2 # rest2 \<Rightarrow>
             if \<not> is_continuation ch2 \<or> (if ch2 < 0x90 then ch = 0xF0 else ch = 0xF4)
             then Malformed 1
             else (case rest2 of
                     [] \<Rightarrow> Malformed 2
                   | ch3 # rest3 \<Rightarrow>
                       if \<not> is_continuation ch3 then Malformed 2
                       else (case rest3 of
                               [] \<Rightarrow> Malformed 3
                             | ch4 # _ \<Rightarrow>
                                 if \<not> is_continuation ch4 then Malformed 3
                                 else Decoded ((unat ch - 0xF0) * 262144
                                               + (unat ch2 - 0x80) * 4096
                                               + (unat ch3 - 0x80) * 64
                                               + (unat ch4 - 0x80)) 4)))
      else Malformed 1)"

fun utf8_decode :: "decode_errors \<Rightarrow> byte list \<Rightarrow> py_error + nat list" where
  "utf8_decode errors [] = Inr []"
| "utf8_decode errors (ch # rest) =
     (case utf8_step ch rest of
        Decoded cp n \<Rightarrow>
          (case utf8_decode errors (drop (n - 1) rest) of
             Inl e \<Rightarrow> Inl e
           | Inr s \<Rightarrow> Inr (cp # s))
      | Malformed n \<Rightarrow>
          (case errors of
             Strict \<Rightarrow> Inl UnicodeDecodeError
           | Ignore \<Rightarrow> utf8_decode errors (drop (n - 1) rest)
           | Replace \<Rightarrow>
               (case utf8_decode errors (drop (n - 1) rest) of
                  Inl e \<Rightarrow> Inl e
                | Inr s \<Rightarrow> Inr (0xFFFD # s))))"

definition FETCH_TIMEOUT :: nat where
  "FETCH_TIMEOUT = 10"

definition MAX_CONTENT_BYTES :: nat where
  "MAX_CONTENT_BYTES = 1000000"

text \<open>
  The HTTP transport (httpx) is outside the repository. A request either raises, an
  \<open>httpx.RequestError\<close> or another exception (each with its \<open>repr\<close>), or gives a
  response; the model takes that outcome as an argument and records the request in
  the world. Of a response the code reads the status, the URLs of the redirect
  history, the final URL, the headers, the body bytes and the body as the transport
  decodes it (\<open>resp.text\<close>).
\<close>

datatype transport_error = RequestError string | OtherException string

record response =
  resp_status_code :: int
  resp_history :: "string list"
  resp_url :: string
  resp_headers :: "(string \<times> string) list"
  resp_content :: "byte list"
  resp_text :: "nat list"

type_synonym outcome = "transport_error + response"

record head_result =
  head_status_code :: "int option"
  head_final_url :: string
  head_redirects :: "string list"
  head_headers :: "(string \<times> string) list"
  head_error :: "string option"

record get_result =
  get_status_code :: "int option"
  get_final_url :: string
  get_redirects :: "string list"
  get_headers :: "(string \<times> string) list"
  get_content :: "nat list option"
  get_filesize :: nat
  get_error :: "string option"

definition head_request ::
  "outcome \<Rightarrow> string \<Rightarrow> 'r world \<Rightarrow> head_result \<times> 'r world" where
  "head_request client_head url w0 =
     (let w = w0\<lparr> requests := requests w0 @ [(HEAD, url)] \<rparr>;
          result = \<lparr> head_status_code = None, head_final_url = url, head_redirects = [],
                      head_headers = [], head_error = None \<rparr>
      in (case client_head of
            Inl (RequestError e) \<Rightarrow>
              result\<lparr> head_error := Some (''head_request_error: '' @ e) \<rparr>
          | Inl (OtherException e) \<Rightarrow>
              result\<lparr> head_error := Some (''head_request_unexpected: '' @ e) \<rparr>
          | Inr resp \<Rightarrow>
              (let result = result\<lparr> head_status_code := Some (resp_status_code resp) \<rparr>;
                   result = result\<lparr> head_redirects := resp_history resp \<rparr>;
                   result = result\<lparr> head_final_url := resp_url resp \<rparr>;
                   result = result\<lparr> head_headers := resp_headers resp \<rparr>
               in result),
          w))"

definition get_request ::
  "outcome \<Rightarrow> string \<Rightarrow> nat \<Rightarrow> 'r world \<Rightarrow> get_result \<times> 'r world" where
  "get_request client_get url max_bytes w0 =
     (let w = w0\<lparr> requests := requests w0 @ [(GET, url)] \<rparr>;
          result = \<lparr> get_status_code = None, get_final_url = url, get_redirects = [],
                      get_headers = [], get_content = None, get_filesize = 0,
                      get_error = None \<rparr>
      in (case client_get of
            Inl (RequestError e) \<Rightarrow>
              result\<lparr> get_error := Some (''get_request_error: '' @ e) \<rparr>
          | Inl (OtherException e) \<Rightarrow>
              result\<lparr> get_error := Some (''get_request_unexpected: '' @ e) \<rparr>
          | Inr resp \<Rightarrow>
              (let result = result\<lparr> get_status_code := Some (resp_status_code resp) \<rparr>;
                   result = result\<lparr> get_redirects := resp_history resp \<rparr>;
                   result = result\<lparr> get_final_url := resp_url resp \<rparr>;
                   result = result\<lparr> get_headers := resp_headers resp \<rparr>;
                   content_bytes = resp_content resp;
                   result = result\<lparr> get_filesize := length content_bytes \<rparr>
               in if get_filesize result > max_bytes
                  then (case utf8_decode Ignore (take max_bytes content_bytes) of
                          Inl e \<Rightarrow>
                            result\<lparr> get_error :=
                                      Some ''get_request_unexpected: UnicodeDecodeError'' \<rparr>
                        | Inr s \<Rightarrow> result\<lparr> get_content := Some s \<rparr>)
                  else result\<lparr> get_content := Some (resp_text resp) \<rparr>),
          w))"

text \<open>
  A dict entry that can be absent, hold \<open>None\<close>, or hold a value: \<open>fetch_url_data\<close>
  leaves \<open>head\<close> and \<open>get\<close> out when the scheme is not supported, and stores \<open>None\<close>
  under \<open>head\<close> when called with \<open>do_head=False\<close>. The \<open>duration\<close> entry (wall-clock
  time) is not modelled.
\<close>

datatype 'a entry = Absent | Null | Present 'a

record fetch_result =
  fetch_url :: string
  fetch_normalized_url :: string
  fetch_error :: "string option"
  fetch_head :: "head_result entry"
  fetch_get :: "get_result entry"

definition fetch_url_data ::
  "urlparse_fn \<Rightarrow> outcome \<Rightarrow> outcome \<Rightarrow> string \<Rightarrow> bool \<Rightarrow> 'r world \<Rightarrow>
   (py_error + fetch_result) \<times> 'r world" where
  "fetch_url_data urlparse client_head client_get url do_head w =
     (case urlparse url of
        Inl e \<Rightarrow> (Inl e, w)
      | Inr parsed \<Rightarrow>
          if parsed_scheme parsed \<notin> {''http'', ''https'', []}
          then (Inr \<lparr> fetch_url = url, fetch_normalized_url = url,
                      fetch_error = Some ''unsupported-scheme'',
                      fetch_head = Absent, fetch_get = Absent \<rparr>, w)
          else let (head_result, w) =
                     (if do_head
                      then (case head_request client_head url w of (h, w') \<Rightarrow> (Present h, w'))
                      else (Null, w));
                   (get_result, w) = get_request client_get url MAX_CONTENT_BYTES w
               in (Inr \<lparr> fetch_url = url,
                           fetch_normalized_url =
                             (if get_final_url get_result \<noteq> [] then get_final_url get_result
                              else case head_result of
                                     Present h \<Rightarrow>
                                       if head_final_url h \<noteq> [] then head_final_url h else url
                                   | _ \<Rightarrow> url),
                           fetch_error = None,
                           fetch_head = head_result,
                           fetch_get = Present get_result \<rparr>, w))"

section \<open>app/html\_parser.py\<close>

text \<open>
  The tree that \<open>BeautifulSoup(html, "html.parser")\<close> builds is the input: tags with
  their attributes and children, and text strings (comments and other node kinds are
  not modelled). \<open>soup.find_all(name)\<close> lists the tags of that name below a node in
  document order, \<open>tag.get(key)\<close> reads an attribute.
\<close>

datatype node = Element string "(string \<times> string) list" "node list" | Text string

fun descendants :: "node \<Rightarrow> node list" where
  "descendants (Text s) = []"
| "descendants (Element name attrs children) = concat (map (\<lambda>c. c # descendants c) children)"

definition soup_descendants :: "node list \<Rightarrow> node list" where
  "soup_descendants soup = concat (map (\<lambda>c. c # descendants c) soup)"

definition is_tag :: "string \<Rightarrow> node \<Rightarrow> bool" where
  "is_tag name n = (case n of Element nm _ _ \<Rightarrow> nm = name | Text _ \<Rightarrow> False)"

definition find_all :: "string \<Rightarrow> node list \<Rightarrow> node list" where
  "find_all name soup = filter (is_tag name) (soup_descendants soup)"

definition contents :: "node \<Rightarrow> node list" where
  "contents n = (case n of Element _ _ children \<Rightarrow> children | Text _ \<Rightarrow> [])"

definition attr_get :: "node \<Rightarrow> string \<Rightarrow> string option" where
  "attr_get n key = (case n of Element _ attrs _ \<Rightarrow> map_of attrs key | Text _ \<Rightarrow> None)"

text \<open>\<open>tag.string\<close>: the text of a tag whose only child is a string, or whose only
  child is a tag that has a \<open>string\<close>.\<close>

fun node_string :: "node \<Rightarrow> string option" where
  "node_string (Text s) = Some s"
| "node_string (Element name attrs children) =
     (case children of [c] \<Rightarrow> node_string c | _ \<Rightarrow> None)"

text \<open>\<open>tag.decompose()\<close> for every \<open>script\<close> and \<open>style\<close> tag.\<close>

fun decompose_script_style :: "node \<Rightarrow> node" where
  "decompose_script_style (Text s) = Text s"
| "decompose_script_style (Element name attrs children) =
     Element name attrs
       (map decompose_script_style
          (filter (\<lambda>c. \<not> is_tag ''script'' c \<and> \<not> is_tag ''style'' c) children))"

text \<open>\<open>soup.get_text(separator=" ", strip=True)\<close>: the strings of the tree in document
  order, each stripped, the empty ones left out, joined by the separator.\<close>

fun join :: "string \<Rightarrow> string list \<Rightarrow> string" where
  "join sep [] = []"
| "join sep [x] = x"
| "join sep (x # y # ys) = x @ sep @ join sep (y # ys)"

definition get_text :: "string \<Rightarrow> node list \<Rightarrow> string" where
  "get_text separator soup =
     join separator
       (filter (\<lambda>s. s \<noteq> [])
          (List.map_filter (\<lambda>n. case n of Text s \<Rightarrow> Some (strip s) | Element _ _ _ \<Rightarrow> None)
             (soup_descendants soup)))"

record form_input =
  input_type :: string
  input_name :: string
  placeholder :: "string option"

record form =
  form_method :: string
  form_action :: string
  inputs :: "form_input list"
  has_password :: bool

record extracted_features =
  title :: "string option"
  meta_description :: "string option"
  meta_keywords :: "string option"
  links :: "string list"
  forms :: "form list"
  scripts :: "string list"
  images :: "string list"
  iframes :: "string list"
  clean_text :: string

text \<open>\<open>[t.get("src") for t in soup.find_all(name) if t.get("src")]\<close>\<close>

definition src_list :: "string \<Rightarrow> node list \<Rightarrow> string list" where
  "src_list name soup =
     List.map_filter
       (\<lambda>t. case attr_get t ''src'' of
               None \<Rightarrow> None
             | Some v \<Rightarrow> if v \<noteq> [] then Some v else None)
       (find_all name soup)"

text \<open>The body of the loop over the forms.\<close>

definition extract_form :: "node \<Rightarrow> form" where
  "extract_form form =
     (let (inputs, has_password) =
            fold (\<lambda>i (inputs, has_password).
                    let t = py_lower (case attr_get i ''type'' of
                                        None \<Rightarrow> ''text''
                                      | Some v \<Rightarrow> if v \<noteq> [] then v else ''text'');
                        n = py_lower (case attr_get i ''name'' of None \<Rightarrow> [] | Some v \<Rightarrow> v);
                        inputs = inputs @ [\<lparr> input_type = t, input_name = n,
                                            placeholder = attr_get i ''placeholder'' \<rparr>]
                    in if t = ''password'' \<or> py_in ''password'' n
                       then (inputs, True) else (inputs, has_password))
                 (find_all ''input'' (contents form)) ([], False)
      in \<lparr> form_method = py_upper (case attr_get form ''method'' of
                                      None \<Rightarrow> ''GET'' | Some v \<Rightarrow> v),
           form_action = (case attr_get form ''action'' of None \<Rightarrow> [] | Some v \<Rightarrow> v),
           inputs = inputs,
           has_password = has_password \<rparr>)"

definition extract_html_features :: "node list \<Rightarrow> extracted_features" where
  "extract_html_features soup =
     (let title = (case find_all ''title'' soup of
                     [] \<Rightarrow> None
                   | t # _ \<Rightarrow>
                       (case node_string t of
                          None \<Rightarrow> None
                        | Some s \<Rightarrow> if s \<noteq> [] then Some (strip s) else None));
          (meta_desc, meta_keywords) =
            fold (\<lambda>tag (meta_desc, meta_keywords).
                    if attr_get tag ''name'' = Some ''description''
                    then (attr_get tag ''content'', meta_keywords)
                    else if attr_get tag ''name'' = Some ''keywords''
                    then (meta_desc, attr_get tag ''content'')
                    else (meta_desc, meta_keywords))
                 (find_all ''meta'' soup) (None, None);
          links = List.map_filter (\<lambda>a. attr_get a ''href'') (find_all ''a'' soup);
          forms = map extract_form (find_all ''form'' soup);
          scripts = src_list ''script'' soup;
          images = src_list ''img'' soup;
          iframes = src_list ''iframe'' soup;
          soup = map decompose_script_style
                   (filter (\<lambda>c. \<not> is_tag ''script'' c \<and> \<not> is_tag ''style'' c) soup);
          clean_text = get_text '' '' soup
      in \<lparr> title = title,
           meta_description = meta_desc,
           meta_keywords = meta_keywords,
           links = links,
           forms = forms,
           scripts = scripts,
           images = images,
           iframes = iframes,
           clean_text = take 2000 clean_text \<rparr>)"

section \<open>app/risk\_engine.py\<close>

text \<open>
  A Python float is an IEEE binary64 number; the model holds it as the rational number
  that it is. \<open>to_double\<close> rounds a rational to the nearest float, ties to the even
  significand of 53 bits (for magnitudes from \<open>2^-1022\<close> up to \<open>2^1024\<close>: overflow and
  the subnormal range are not modelled). Sums of integers below \<open>2^53\<close> are exact, so
  the score is added up exactly.
\<close>

definition round_half_even :: "rat \<Rightarrow> int" where
  "round_half_even y =
     (let f = \<lfloor>y\<rfloor>; d = y - of_int f
      in if d < 1 / 2 then f else if 1 / 2 < d then f + 1
         else if even f then f else f + 1)"

definition pow2 :: "int \<Rightarrow> rat" where
  "pow2 e = (if 0 \<le> e then 2 ^ nat e else 1 / 2 ^ nat (- e))"

text \<open>The exponent \<open>e\<close> with \<open>2^e \<le> a < 2^(e+1)\<close>, for a positive \<open>a\<close>.\<close>

definition binary_exponent :: "rat \<Rightarrow> int" where
  "binary_exponent a =
     (case quotient_of a of
        (p, q) \<Rightarrow> let d = bitlen p - bitlen q in if pow2 d \<le> a then d else d - 1)"

definition to_double :: "rat \<Rightarrow> rat" where
  "to_double x =
     (if x = 0 then 0
      else let a = \<bar>x\<bar>;
               ulp = pow2 (binary_exponent a - 52)
           in sgn x * of_int (round_half_even (a / ulp)) * ulp)"

text \<open>\<open>round(x, n)\<close> on the float \<open>x\<close>: the decimal with \<open>n\<close> digits nearest to the exact
  value of the float, ties to even, and then the float nearest to that decimal.\<close>

definition py_round :: "nat \<Rightarrow> rat \<Rightarrow> rat" where
  "py_round n x =
     to_double (of_int (round_half_even (to_double x * 10 ^ n)) / 10 ^ n)"

text \<open>\<open>a / b\<close> on integers: true division, correctly rounded, \<open>ZeroDivisionError\<close> when
  \<open>b\<close> is zero.\<close>

definition py_truediv :: "nat \<Rightarrow> nat \<Rightarrow> py_error + rat" where
  "py_truediv a b =
     (if b = 0 then Inl ZeroDivisionError else Inr (to_double (of_nat a / of_nat b)))"

definition SUSPICIOUS_TLDS :: "string list" where
  "SUSPICIOUS_TLDS = [''.xyz'', ''.top'', ''.click'', ''.ml'', ''.cf'', ''.ga'', ''.bid'', ''.pw'']"

definition SUSPICIOUS_KEYWORDS :: "string list" where
  "SUSPICIOUS_KEYWORDS =
     [''login'', ''verify'', ''account'', ''bank'', ''secure'', ''update'', ''signin'',
      ''password'', ''confirm'', ''ssn'', ''social'', ''credential'', ''change-password'',
      ''otp'', ''one-time'']"

primrec re_repeat :: "nat \<Rightarrow> matcher \<Rightarrow> matcher" where
  "re_repeat 0 m = (\<lambda>s. [s])"
| "re_repeat (Suc n) m = re_seq m (re_repeat n m)"

text \<open>\<^verbatim>\<open>^\d{1,3}(\.\d{1,3}){3}$\<close>\<close>

definition IP_REGEX :: matcher where
  "IP_REGEX =
     re_seq (re_class_range is_digit 1 (Some 3))
    (re_seq (re_repeat 3 (re_seq (re_lit ''.'') (re_class_range is_digit 1 (Some 3))))
     re_eol)"

definition is_ip_host :: "string \<Rightarrow> bool" where
  "is_ip_host hostname = (if hostname = [] then False else re_match IP_REGEX hostname)"

definition tld_is_suspicious :: "string \<Rightarrow> bool" where
  "tld_is_suspicious hostname =
     (if hostname = [] \<or> CHR ''.'' \<notin> set hostname then False
      else let lower = py_lower hostname
           in list_ex (\<lambda>tld. endswith lower tld) SUSPICIOUS_TLDS)"

definition external_script_ratio :: "string list \<Rightarrow> string \<Rightarrow> py_error + rat" where
  "external_script_ratio scripts' domain =
     (if scripts' = [] then Inr 0
      else let external =
                 fold (\<lambda>s external.
                         if s \<noteq> [] \<and> \<not> startswith s ''/'' \<and> \<not> py_in domain s
                         then external + 1 else external) scripts' 0
           in py_truediv external (length scripts'))"

definition external_links_ratio ::
  "urlparse_fn \<Rightarrow> string list \<Rightarrow> string \<Rightarrow> py_error + rat" where
  "external_links_ratio urlparse links' domain =
     (if links' = [] then Inr 0
      else let external =
                 fold (\<lambda>l external.
                         case urlparse l of
                           Inl e \<Rightarrow> external
                         | Inr parsed \<Rightarrow>
                             let host = (case parsed_hostname parsed of None \<Rightarrow> [] | Some h \<Rightarrow> h)
                             in if host \<noteq> [] \<and> \<not> py_in domain host
                                then external + 1 else external) links' 0
           in py_truediv external (length links'))"

definition count_forms :: "form list \<Rightarrow> nat" where
  "count_forms forms' = length forms'"

definition count_iframes :: "string list \<Rightarrow> nat" where
  "count_iframes iframes' = length iframes'"

definition suspicious_keyword_matches :: "string \<Rightarrow> nat" where
  "suspicious_keyword_matches text =
     (if text = [] then 0
      else let low = py_lower text
           in fold (\<lambda>kw count. if py_in kw low then count + 1 else count)
                SUSPICIOUS_KEYWORDS 0)"

text \<open>
  The reputation inputs. \<open>vt\<close> is a dict whose counts are Python integers; a key that is
  absent (or \<open>None\<close>) is \<open>None\<close>. Of \<open>gsb\<close> the code reads only whether \<open>matches\<close> and
  \<open>threats\<close> hold a true value.
\<close>

record vt_report =
  malicious_count :: "int option"
  malicious :: "int option"
  suspicious_count :: "int option"
  suspicious :: "int option"

record gsb_report =
  matches :: bool
  threats :: bool

text \<open>\<open>d.get(k1, 0) or d.get(k2, 0) or 0\<close>: the first value that is not zero.\<close>

definition get_or :: "int option \<Rightarrow> int option \<Rightarrow> int" where
  "get_or a b =
     (let x = (case a of None \<Rightarrow> 0 | Some v \<Rightarrow> v)
      in if x \<noteq> 0 then x
         else let y = (case b of None \<Rightarrow> 0 | Some v \<Rightarrow> v)
              in if y \<noteq> 0 then y else 0)"

definition combine_vt_gsb_score :: "vt_report option \<Rightarrow> gsb_report option \<Rightarrow> rat" where
  "combine_vt_gsb_score vt gsb =
     (let score = 0;
          score = (case vt of
                     None \<Rightarrow> score
                   | Some v \<Rightarrow>
                       let malicious = get_or (malicious_count v) (malicious v);
                           suspicious = get_or (suspicious_count v) (suspicious v);
                           score = score + of_int (min 50 (malicious * 20));
                           score = score + of_int (min 20 (suspicious * 5))
                       in score);
          score = (case gsb of
                     None \<Rightarrow> score
                   | Some g \<Rightarrow>
                       if matches g then score + 60
                       else if threats g then score + 60
                       else score)
      in min 100 score)"

datatype verdict = SAFE | SUSPICIOUS | DANGEROUS

text \<open>
  One constructor for each explanation string of the report, with the values that the
  f-string formats:
  \<^item> \<open>ExternalThreat p\<close>: \<^verbatim>\<open>External threat services flagged: penalty {p:.0f}\<close>
  \<^item> \<open>RedirectChain n\<close>: \<^verbatim>\<open>Redirect chain length {n} (suspicious)\<close>
  \<^item> \<open>NumericIP\<close>: \<^verbatim>\<open>URL uses numeric IP address (suspicious)\<close>
  \<^item> \<open>SuspiciousTLD t\<close>: \<^verbatim>\<open>Suspicious TLD ({t})\<close>
  \<^item> \<open>FoundForms n\<close>: \<^verbatim>\<open>Found {n} form(s) (could request credentials)\<close>
  \<^item> \<open>HighScriptRatio r\<close>: \<^verbatim>\<open>High external script ratio: {r:.2f}\<close>
  \<^item> \<open>FoundIframes n\<close>: \<^verbatim>\<open>Found {n} iframe(s)\<close>
  \<^item> \<open>HighLinksRatio r\<close>: \<^verbatim>\<open>High external links ratio: {r:.2f}\<close>
  \<^item> \<open>KeywordsFound n\<close>: \<^verbatim>\<open>Suspicious keywords found: {n}\<close>
  \<^item> \<open>UsingHTTP\<close>: \<^verbatim>\<open>Using HTTP (not HTTPS)\<close>
  \<^item> \<open>SmallPageWithForms\<close>: \<^verbatim>\<open>Very small page with forms (phishing-like)\<close>
\<close>

datatype explanation =
    ExternalThreat rat
  | RedirectChain nat
  | NumericIP
  | SuspiciousTLD string
  | FoundForms nat
  | HighScriptRatio rat
  | FoundIframes nat
  | HighLinksRatio rat
  | KeywordsFound nat
  | UsingHTTP
  | SmallPageWithForms

text \<open>\<open>hostname.split('.')[-1]\<close>: the text after the last dot.\<close>

definition last_label :: "string \<Rightarrow> string" where
  "last_label h = rev (takeWhile (\<lambda>c. c \<noteq> CHR ''.'') (rev h))"

record components =
  c_api_penalty :: rat
  c_redirect_count :: nat
  c_forms_count :: nat
  c_ext_script_ratio :: rat
  c_iframe_count :: nat
  c_ext_link_ratio :: rat
  c_kw_matches :: nat
  c_filesize :: nat
  c_scheme :: string

record risk_report =
  score :: rat
  verdict :: verdict
  components :: components
  explanations :: "explanation list"

text \<open>\<open>d.get(key, {}).get(field, default)\<close>: the default when the key is absent, the
  field when the entry is a dict, \<open>AttributeError\<close> when the entry is \<open>None\<close>.\<close>

definition entry_field :: "('a \<Rightarrow> 'b) \<Rightarrow> 'b \<Rightarrow> 'a entry \<Rightarrow> py_error + 'b" where
  "entry_field field dflt e =
     (case e of Absent \<Rightarrow> Inr dflt | Null \<Rightarrow> Inl AttributeError | Present d \<Rightarrow> Inr (field d))"

definition compute_heuristic_score ::
  "urlparse_fn \<Rightarrow> fetch_result \<Rightarrow> extracted_features \<Rightarrow> string \<Rightarrow>
   vt_report option \<Rightarrow> gsb_report option \<Rightarrow> py_error + risk_report" where
  "compute_heuristic_score urlparse fetch extracted normalized_url vt gsb =
    (let explanations = [];
         score = 0
     in case urlparse normalized_url of
       Inl e \<Rightarrow> Inl e
     | Inr parsed \<Rightarrow>
    (let hostname = (case parsed_hostname parsed of None \<Rightarrow> [] | Some h \<Rightarrow> h);
         domain = hostname;
         api_penalty = combine_vt_gsb_score vt gsb;
         explanations = (if api_penalty > 0
                         then explanations @ [ExternalThreat api_penalty] else explanations);
         score = score + api_penalty
     in case entry_field head_redirects [] (fetch_head fetch) of
       Inl e \<Rightarrow> Inl e
     | Inr hr \<Rightarrow>
       case entry_field get_redirects [] (fetch_get fetch) of
       Inl e \<Rightarrow> Inl e
     | Inr gr \<Rightarrow>
    (let redirect_count = max (length hr) (length gr);
         (score, explanations) =
           (if redirect_count \<ge> 3
            then (score + 12, explanations @ [RedirectChain redirect_count])
            else if redirect_count = 2 then (score + 6, explanations)
            else (score, explanations));
         (score, explanations) =
           (if is_ip_host hostname then (score + 15, explanations @ [NumericIP])
            else (score, explanations));
         (score, explanations) =
           (if tld_is_suspicious hostname
            then (score + 8, explanations @ [SuspiciousTLD (last_label hostname)])
            else (score, explanations));
         forms_count = count_forms (forms extracted);
         (score, explanations) =
           (if forms_count > 0
            then (score + of_nat (min 20 (forms_count * 6)),
                  explanations @ [FoundForms forms_count])
            else (score, explanations));
         scripts = scripts extracted;
         iframes = iframes extracted
     in case external_script_ratio scripts domain of
       Inl e \<Rightarrow> Inl e
     | Inr ext_script_ratio \<Rightarrow>
    (let (score, explanations) =
           (if ext_script_ratio > to_double (6 / 10)
            then (score + 10, explanations @ [HighScriptRatio ext_script_ratio])
            else (score, explanations));
         iframe_count = count_iframes iframes;
         (score, explanations) =
           (if iframe_count > 0
            then (score + of_nat (min 12 (iframe_count * 6)),
                  explanations @ [FoundIframes iframe_count])
            else (score, explanations));
         links = links extracted
     in case external_links_ratio urlparse links domain of
       Inl e \<Rightarrow> Inl e
     | Inr ext_link_ratio \<Rightarrow>
    (let (score, explanations) =
           (if ext_link_ratio > to_double (6 / 10)
            then (score + 8, explanations @ [HighLinksRatio ext_link_ratio])
            else (score, explanations));
         text = clean_text extracted;
         kw_matches = suspicious_keyword_matches text;
         (score, explanations) =
           (if kw_matches > 0
            then (score + of_nat (min 15 (kw_matches * 3)),
                  explanations @ [KeywordsFound kw_matches])
            else (score, explanations));
         (score, explanations) =
           (if parsed_scheme parsed = ''http'' then (score + 4, explanations @ [UsingHTTP])
            else (score, explanations))
     in case entry_field get_filesize 0 (fetch_get fetch) of
       Inl e \<Rightarrow> Inl e
     | Inr filesize \<Rightarrow>
    (let (score, explanations) =
           (if filesize < 200 \<and> forms_count > 0
            then (score + 8, explanations @ [SmallPageWithForms])
            else (score, explanations));
         raw_score = min 100 score;
         verdict = (if raw_score \<ge> 65 then DANGEROUS
                    else if raw_score \<ge> 30 then SUSPICIOUS
                    else SAFE)
     in Inr \<lparr> score = py_round 1 raw_score,
              verdict = verdict,
              components = \<lparr> c_api_penalty = py_round 1 api_penalty,
                             c_redirect_count = redirect_count,
                             c_forms_count = forms_count,
                             c_ext_script_ratio = py_round 2 ext_script_ratio,
                             c_iframe_count = iframe_count,
                             c_ext_link_ratio = py_round 2 ext_link_ratio,
                             c_kw_matches = kw_matches,
                             c_filesize = filesize,
                             c_scheme = parsed_scheme parsed \<rparr>,
              explanations = explanations \<rparr>))))))"

section \<open>app/main.py\<close>

text \<open>
  The \<open>/scan\<close> endpoint. The HTML parser is a parameter, as are the outcomes of the two
  HTTP requests that the fetch issues. The response is \<open>Invalid_url reason\<close> for
  \<open>{"status": "invalid_url", ...}\<close> and \<open>Scanned summary\<close> for \<open>{"status": "ok", ...}\<close>.
\<close>

record summary =
  s_url :: string
  s_verdict :: verdict
  s_score :: rat
  s_title :: "string option"
  s_final_url :: string
  s_filesize :: nat
  s_explanations :: "explanation list"

datatype scan_response = Invalid_url string | Scanned summary

definition empty_features :: extracted_features where
  "empty_features =
     \<lparr> title = None, meta_description = None, meta_keywords = None, links = [],
       forms = [], scripts = [], images = [], iframes = [], clean_text = [] \<rparr>"

definition scan ::
  "urlparse_fn \<Rightarrow> tldextract_fn \<Rightarrow> (nat list \<Rightarrow> node list) \<Rightarrow> outcome \<Rightarrow> outcome \<Rightarrow>
   string \<Rightarrow> 'r world \<Rightarrow> (py_error + scan_response) \<times> 'r world" where
  "scan urlparse tldextract html_parser client_head client_get url w =
     (case validate_and_normalize urlparse tldextract url of
        Inl e \<Rightarrow> (Inl e, w)
      | Inr (Invalid res) \<Rightarrow> (Inr (Invalid_url res), w)
      | Inr (Valid normalized) \<Rightarrow>
          (case fetch_url_data urlparse client_head client_get normalized True w of
             (Inl e, w) \<Rightarrow> (Inl e, w)
           | (Inr fetch_data, w) \<Rightarrow>
               (case entry_field get_error None (fetch_get fetch_data) of
                  Inl e \<Rightarrow> (Inl e, w)
                | Inr err \<Rightarrow>
                    (case (if err \<noteq> None \<and> err \<noteq> Some []
                           then Inr empty_features
                           else (case fetch_get fetch_data of
                                   Present g \<Rightarrow>
                                     let html = (case get_content g of
                                                   None \<Rightarrow> [] | Some c \<Rightarrow> c)
                                     in Inr (extract_html_features (html_parser html))
                                 | _ \<Rightarrow> Inl KeyError)) of
                       Inl e \<Rightarrow> (Inl e, w)
                     | Inr extracted \<Rightarrow>
                         (case compute_heuristic_score urlparse fetch_data extracted
                                 normalized None None of
                            Inl e \<Rightarrow> (Inl e, w)
                          | Inr risk \<Rightarrow>
                              (case fetch_get fetch_data of
                                 Present g \<Rightarrow>
                                   (Inr (Scanned
                                      \<lparr> s_url = normalized,
                                        s_verdict = verdict risk,
                                        s_score = score risk,
                                        s_title = title extracted,
                                        s_final_url = get_final_url g,
                                        s_filesize = get_filesize g,
                                        s_explanations = take 3 (explanations risk) \<rparr>), w)
                               | _ \<Rightarrow> (Inl KeyError, w)))))))"

section \<open>Notions used in the statements\<close>

text \<open>A text that \<open>strip\<close> leaves unchanged: empty, or with no whitespace at either end.\<close>

definition stripped :: "string \<Rightarrow> bool" where
  "stripped s = (s = [] \<or> (\<not> is_space (hd s) \<and> \<not> is_space (last s)))"

text \<open>A scheme name written without a dot, as in \<open>javascript:\<close>, \<open>data:\<close>, \<open>file:\<close>:
  letters, digits, plus and minus.\<close>

definition is_scheme_name :: "string \<Rightarrow> bool" where
  "is_scheme_name sch =
     (sch \<noteq> [] \<and>
      list_all (\<lambda>c. is_alpha c \<or> is_digit c \<or> c = CHR ''+'' \<or> c = CHR ''-'') sch)"

text \<open>
  Library behaviour for the examples: what \<open>urlparse\<close> returns for a URL of the shape
  \<open>scheme://host[:port][/path]\<close>, and a \<open>tldextract\<close> that takes the last two labels
  of that host.
\<close>

definition sample_urlparse :: urlparse_fn where
  "sample_urlparse url =
     (let sch = takeWhile (\<lambda>c. c \<noteq> CHR '':'') url;
          rest = drop (length sch + 3) url;
          host = takeWhile (\<lambda>c. c \<notin> set ''/:?#'') rest
      in Inr \<lparr> parsed_scheme = py_lower sch,
                parsed_hostname = (if host = [] then None else Some (py_lower host)) \<rparr>)"

definition sample_tldextract :: tldextract_fn where
  "sample_tldextract url =
     (case sample_urlparse url of
        Inl e \<Rightarrow> ([], [])
      | Inr p \<Rightarrow>
          (let h = (case parsed_hostname p of None \<Rightarrow> [] | Some h \<Rightarrow> h);
               sfx = last_label h
           in (last_label (take (length h - length sfx - 1) h), sfx)))"

text \<open>The verdict as the specification words it: 65 and above is dangerous, from 30 up
  to 65 is suspicious, anything else is safe.\<close>

definition spec_verdict :: "rat \<Rightarrow> verdict" where
  "spec_verdict s =
     (if s \<ge> 65 then DANGEROUS else if 30 \<le> s \<and> s < 65 then SUSPICIOUS else SAFE)"

text \<open>The counts that the reputation input holds are not negative.\<close>

definition vt_counts_nonneg :: "vt_report option \<Rightarrow> bool" where
  "vt_counts_nonneg vt =
     (case vt of
        None \<Rightarrow> True
      | Some v \<Rightarrow> 0 \<le> get_or (malicious_count v) (malicious v) \<and>
                  0 \<le> get_or (suspicious_count v) (suspicious v))"

text \<open>The penalties of the heuristics 2 to 9 and their explanations, in the order in
  which \<open>compute_heuristic_score\<close> evaluates them, from the values it has computed.\<close>

definition host_of :: "parse_result \<Rightarrow> string" where
  "host_of parsed = (case parsed_hostname parsed of None \<Rightarrow> [] | Some h \<Rightarrow> h)"

definition heuristic_penalties ::
  "nat \<Rightarrow> parse_result \<Rightarrow> extracted_features \<Rightarrow> rat \<Rightarrow> rat \<Rightarrow> nat \<Rightarrow> rat list" where
  "heuristic_penalties rc parsed ex sr lr fs =
     [if rc \<ge> 3 then 12 else if rc = 2 then 6 else 0,
      if is_ip_host (host_of parsed) then 15 else 0,
      if tld_is_suspicious (host_of parsed) then 8 else 0,
      if length (forms ex) > 0 then of_nat (min 20 (length (forms ex) * 6)) else 0,
      if sr > to_double (6 / 10) then 10 else 0,
      if length (iframes ex) > 0 then of_nat (min 12 (length (iframes ex) * 6)) else 0,
      if lr > to_double (6 / 10) then 8 else 0,
      if suspicious_keyword_matches (clean_text ex) > 0
      then of_nat (min 15 (suspicious_keyword_matches (clean_text ex) * 3)) else 0,
      if parsed_scheme parsed = ''http'' then 4 else 0,
      if fs < 200 \<and> length (forms ex) > 0 then 8 else 0]"

definition heuristic_explanations ::
  "nat \<Rightarrow> parse_result \<Rightarrow> extracted_features \<Rightarrow> rat \<Rightarrow> rat \<Rightarrow> nat \<Rightarrow> explanation list" where
  "heuristic_explanations rc parsed ex sr lr fs =
     (if rc \<ge> 3 then [RedirectChain rc] else []) @
     (if is_ip_host (host_of parsed) then [NumericIP] else []) @
     (if tld_is_suspicious (host_of parsed)
      then [SuspiciousTLD (last_label (host_of parsed))] else []) @
     (if length (forms ex) > 0 then [FoundForms (length (forms ex))] else []) @
     (if sr > to_double (6 / 10) then [HighScriptRatio sr] else []) @
     (if length (iframes ex) > 0 then [FoundIframes (length (iframes ex))] else []) @
     (if lr > to_double (6 / 10) then [HighLinksRatio lr] else []) @
     (if suspicious_keyword_matches (clean_text ex) > 0
      then [KeywordsFound (suspicious_keyword_matches (clean_text ex))] else []) @
     (if parsed_scheme parsed = ''http'' then [UsingHTTP] else []) @
     (if fs < 200 \<and> length (forms ex) > 0 then [SmallPageWithForms] else [])"

text \<open>A fetch result for the examples: both requests answered with status 200 after the
  given redirects, the body of the given size.\<close>

definition sample_fetch :: "string \<Rightarrow> string list \<Rightarrow> nat \<Rightarrow> fetch_result" where
  "sample_fetch url redirects nbytes =
     \<lparr> fetch_url = url, fetch_normalized_url = url, fetch_error = None,
       fetch_head = Present \<lparr> head_status_code = Some 200, head_final_url = url,
                              head_redirects = redirects, head_headers = [],
                              head_error = None \<rparr>,
       fetch_get = Present \<lparr> get_status_code = Some 200, get_final_url = url,
                             get_redirects = redirects, get_headers = [],
                             get_content = Some [], get_filesize = nbytes,
                             get_error = None \<rparr> \<rparr>"

text \<open>An HTML parser for the examples: the whole page as one text node.\<close>

definition sample_html_parser :: "nat list \<Rightarrow> node list" where
  "sample_html_parser html = [Text (map char_of html)]"

text \<open>The meta tags of a page whose \<open>name\<close> attribute has the given value, in document
  order.\<close>

definition metas_named :: "string \<Rightarrow> node list \<Rightarrow> node list" where
  "metas_named name soup =
     filter (\<lambda>t. attr_get t ''name'' = Some name) (find_all ''meta'' soup)"

text \<open>The features that \<open>scan\<close> scores for a GET result: the empty features when the
  request failed, the features extracted from the parsed content otherwise.\<close>

definition scan_features :: "(nat list \<Rightarrow> node list) \<Rightarrow> get_result \<Rightarrow> extracted_features" where
  "scan_features html_parser g =
     (if get_error g \<noteq> None \<and> get_error g \<noteq> Some [] then empty_features
      else extract_html_features
             (html_parser (case get_content g of None \<Rightarrow> [] | Some c \<Rightarrow> c)))"

text \<open>A transport outcome for the examples: status 200, no redirects, a short page.\<close>

definition sample_outcome :: outcome where
  "sample_outcome =
     Inr \<lparr> resp_status_code = 200, resp_history = [], resp_url = ''https://example.com'',
           resp_headers = [], resp_content = [0x6F, 0x6B], resp_text = [0x6F, 0x6B] \<rparr>"

section \<open>Properties of the URL validator\<close>

subsection \<open>Stripping and normalisation\<close>

lemma rstrip_keeps_hd:
  assumes "s \<noteq> []" "\<not> is_space (hd s)"
  shows "rstrip s \<noteq> [] \<and> hd (rstrip s) = hd s"
proof -
  from assms obtain x xs where s: "s = x # xs" and x: "\<not> is_space x"
    by (cases s) auto
  have "dropWhile is_space (rev xs @ [x]) = dropWhile is_space (rev xs) @ [x]"
    using x by (simp add: dropWhile_append)
  then show ?thesis by (simp add: rstrip_def s)
qed

lemma rstrip_last:
  "rstrip s \<noteq> [] \<Longrightarrow> \<not> is_space (last (rstrip s))"
  unfolding rstrip_def
  by (metis hd_dropWhile last_rev rev_is_Nil_conv)

lemma rstrip_fixed: "s = [] \<or> \<not> is_space (last s) \<Longrightarrow> rstrip s = s"
  unfolding rstrip_def
  by (cases "rev s") (auto simp: last_rev[symmetric] simp del: last_rev dest: arg_cong[where f=rev])

lemma lstrip_fixed: "s = [] \<or> \<not> is_space (hd s) \<Longrightarrow> lstrip s = s"
  unfolding lstrip_def by (cases s) auto

lemma strip_fixed: "stripped s \<Longrightarrow> strip s = s"
  unfolding strip_def stripped_def
  by (metis lstrip_fixed rstrip_fixed)

lemma stripped_strip: "stripped (strip s)"
proof (cases "lstrip s = []")
  case True
  then show ?thesis by (simp add: strip_def stripped_def rstrip_def)
next
  case False
  then have "\<not> is_space (hd (lstrip s))"
    unfolding lstrip_def by (rule hd_dropWhile)
  with False have "rstrip (lstrip s) \<noteq> []" "hd (rstrip (lstrip s)) = hd (lstrip s)"
    using rstrip_keeps_hd by auto
  with \<open>\<not> is_space (hd (lstrip s))\<close> show ?thesis
    unfolding strip_def stripped_def using rstrip_last by auto
qed

lemma stripped_https: "stripped s \<Longrightarrow> stripped (''https://'' @ s)"
  unfolding stripped_def by (auto simp: is_space_def)

lemma normalize_url_prefix:
  "startswith (normalize_url raw) ''http://'' \<or> startswith (normalize_url raw) ''https://''"
  by (simp add: normalize_url_def Let_def startswith_def)

lemma normalize_url_stripped: "stripped (normalize_url raw)"
  using stripped_https[OF stripped_strip, of raw]
  by (simp add: normalize_url_def Let_def stripped_strip)

lemma normalize_url_idem: "normalize_url (normalize_url raw) = normalize_url raw"
proof -
  have "strip (normalize_url raw) = normalize_url raw"
    by (rule strip_fixed) (rule normalize_url_stripped)
  then show ?thesis
    using normalize_url_prefix[of raw]
    by (subst normalize_url_def) (simp add: Let_def)
qed

lemma validate_valid_iff:
  "validate_and_normalize urlparse tldextract raw = Inr (Valid u) \<Longrightarrow>
     u = normalize_url raw \<and> is_valid_url u \<and>
     (\<exists>p. urlparse u = Inr p \<and> parsed_scheme p \<in> {''http'', ''https''})"
  by (auto simp: validate_and_normalize_def Let_def split: if_splits sum.splits)

lemma extract_domain_nonempty: "extract_domain tldextract url \<noteq> []"
  by (simp add: extract_domain_def split: prod.splits)

subsection \<open>Inputs written with another scheme\<close>

lemma re_seq_empty_iff: "re_seq m1 m2 s = [] \<longleftrightarrow> (\<forall>r \<in> set (m1 s). m2 r = [])"
  by (auto simp: re_seq_def)

lemma re_lit_dot_drop:
  assumes "CHR ''.'' \<notin> set (takeWhile is_domain_char s)"
    and "k \<le> length (takeWhile is_domain_char s)"
  shows "re_lit ''.'' (drop k s) = []"
proof (rule ccontr)
  assume "re_lit ''.'' (drop k s) \<noteq> []"
  then have pre: "prefix ''.'' (drop k s)"
    by (simp add: re_lit_def split: if_splits)
  then have k: "k < length s" and sk: "s ! k = CHR ''.''"
    by (auto simp: prefix_def dest: arg_cong[where f=length])
       (metis Cons_nth_drop_Suc drop_all list.inject list.simps(3) not_le prefix_def pre append_Cons)
  have dom: "is_domain_char (CHR ''.'')" by (simp add: is_domain_char_def)
  show False
  proof (cases "k < length (takeWhile is_domain_char s)")
    case True
    then have "takeWhile is_domain_char s ! k = s ! k" by (rule takeWhile_nth)
    with True sk assms(1) show False by (metis nth_mem)
  next
    case False
    with assms(2) have "k = length (takeWhile is_domain_char s)" by simp
    with k have "\<not> is_domain_char (s ! k)" by (simp add: nth_length_takeWhile)
    with sk dom show False by simp
  qed
qed

lemma domain_tld_no_dot:
  assumes "CHR ''.'' \<notin> set (takeWhile is_domain_char s)"
  shows "re_seq (re_class_range is_domain_char lo None) (re_seq (re_seq (re_lit ''.'') X) Y) s = []"
proof -
  have "re_seq (re_seq (re_lit ''.'') X) Y r = []"
    if "r \<in> set (re_class_range is_domain_char lo None s)" for r
  proof -
    from that obtain k where "r = drop k s" "k \<le> length (takeWhile is_domain_char s)"
      by (auto simp: re_class_range_def Let_def)
    with assms have "re_lit ''.'' r = []" by (simp add: re_lit_dot_drop)
    then show ?thesis by (simp add: re_seq_def)
  qed
  then show ?thesis by (simp add: re_seq_empty_iff)
qed

lemma takeWhile_scheme_no_dot:
  assumes "CHR ''.'' \<notin> set sch"
  shows "CHR ''.'' \<notin> set (takeWhile is_domain_char (sch @ CHR '':'' # rest))"
proof -
  have "\<not> is_domain_char (CHR '':'')"
    by (simp add: is_domain_char_def is_alpha_def is_upper_def is_lower_def is_digit_def)
  then have "set (takeWhile is_domain_char (sch @ CHR '':'' # rest)) \<subseteq> set sch"
    by (auto simp: takeWhile_append dest: set_takeWhileD)
  with assms show ?thesis by blast
qed

lemma URL_REGEX_scheme_colon:
  assumes "CHR ''.'' \<notin> set sch"
  shows "\<not> re_match URL_REGEX (''https://'' @ sch @ CHR '':'' # rest)"
proof -
  have a: "re_opt (re_seq (re_lit ''http'') (re_seq (re_opt (re_lit ''s'')) (re_lit ''://'')))
             (''https://'' @ sch @ CHR '':'' # rest)
           = [sch @ CHR '':'' # rest, ''https://'' @ sch @ CHR '':'' # rest]"
    by (simp add: re_opt_def re_seq_def re_lit_def)
  have b: "CHR ''.'' \<notin> set (takeWhile is_domain_char (''https://'' @ sch @ CHR '':'' # rest))"
    by (simp add: is_domain_char_def is_alpha_def is_upper_def is_lower_def is_digit_def)
  show ?thesis
    unfolding re_match_def URL_REGEX_def
    apply (subst re_seq_def)
    apply (simp only: a)
    apply (simp add: domain_tld_no_dot[OF takeWhile_scheme_no_dot[OF assms]] domain_tld_no_dot[OF b] del: append.simps)
    done
qed


lemma scheme_name_chars:
  assumes "is_scheme_name sch"
  shows "CHR ''.'' \<notin> set sch" "CHR '':'' \<notin> set sch" "\<not> is_space (hd sch)" "sch \<noteq> []"
proof -
  have *: "c \<noteq> CHR ''.'' \<and> c \<noteq> CHR '':'' \<and> \<not> is_space c"
    if "is_alpha c \<or> is_digit c \<or> c = CHR ''+'' \<or> c = CHR ''-''" for c
    using that by (auto simp: is_alpha_def is_upper_def is_lower_def is_digit_def is_space_def Let_def)
  from assms have all: "\<forall>c\<in>set sch. is_alpha c \<or> is_digit c \<or> c = CHR ''+'' \<or> c = CHR ''-''"
    and ne: "sch \<noteq> []"
    by (auto simp: is_scheme_name_def list_all_iff)
  show "CHR ''.'' \<notin> set sch" "CHR '':'' \<notin> set sch" using all * by blast+
  show "sch \<noteq> []" by (rule ne)
  from ne have "hd sch \<in> set sch" by simp
  with all * show "\<not> is_space (hd sch)" by blast
qed

lemma strip_scheme_colon:
  assumes "sch \<noteq> []" "\<not> is_space (hd sch)"
  shows "strip (sch @ CHR '':'' # rest) = sch @ CHR '':'' # rstrip rest"
proof -
  have c: "\<not> is_space (CHR '':'')" by (simp add: is_space_def)
  have "lstrip (sch @ CHR '':'' # rest) = sch @ CHR '':'' # rest"
    using assms by (cases sch) (auto simp: lstrip_def)
  moreover have "rstrip (sch @ CHR '':'' # rest) = sch @ CHR '':'' # rstrip rest"
    using c by (simp add: rstrip_def dropWhile_append)
  ultimately show ?thesis by (simp add: strip_def)
qed

lemma scheme_of_prefix:
  assumes "CHR '':'' \<notin> set sch" "prefix (p @ '':'' @ q) (sch @ CHR '':'' # rest)" "CHR '':'' \<notin> set p"
  shows "sch = p"
proof -
  from assms(2) obtain t where t: "sch @ CHR '':'' # rest = p @ CHR '':'' # q @ t"
    by (auto simp: prefix_def)
  have "takeWhile (\<lambda>c. c \<noteq> CHR '':'') (sch @ CHR '':'' # rest) = sch"
    using assms(1) by (simp add: takeWhile_append)
  moreover have "takeWhile (\<lambda>c. c \<noteq> CHR '':'') (p @ CHR '':'' # q @ t) = p"
    using assms(3) by (simp add: takeWhile_append)
  ultimately show ?thesis using t by simp
qed

lemma normalize_url_scheme_colon:
  assumes "is_scheme_name sch" "sch \<notin> {''http'', ''https''}"
  shows "normalize_url (sch @ CHR '':'' # rest) = ''https://'' @ sch @ CHR '':'' # rstrip rest"
proof -
  note ch = scheme_name_chars[OF assms(1)]
  have s: "strip (sch @ CHR '':'' # rest) = sch @ CHR '':'' # rstrip rest"
    using ch by (simp add: strip_scheme_colon)
  have "\<not> prefix ''http://'' (sch @ CHR '':'' # rstrip rest)"
    using scheme_of_prefix[of sch "''http''" "''//''" "rstrip rest"] ch(2) assms(2) by auto
  moreover have "\<not> prefix ''https://'' (sch @ CHR '':'' # rstrip rest)"
    using scheme_of_prefix[of sch "''https''" "''//''" "rstrip rest"] ch(2) assms(2) by auto
  ultimately show ?thesis
    by (simp add: normalize_url_def s startswith_def del: append.simps)
qed

lemma validate_scheme_colon:
  assumes "is_scheme_name sch" "sch \<notin> {''http'', ''https''}"
  shows "validate_and_normalize urlparse tldextract (sch @ CHR '':'' # rest)
         = Inr (Invalid ''Invalid URL format'')"
  using URL_REGEX_scheme_colon[OF scheme_name_chars(1)[OF assms(1)], of "rstrip rest"]
  by (simp add: validate_and_normalize_def normalize_url_scheme_colon[OF assms] is_valid_url_def
           del: append.simps)

lemma validate_valid_prefix:
  assumes "validate_and_normalize urlparse tldextract raw = Inr (Valid u)"
  shows "startswith u ''http://'' \<or> startswith u ''https://''"
  using validate_valid_iff[OF assms] normalize_url_prefix[of raw] by simp

text \<open>
  Claim C9. Normalisation is idempotent: when \<open>validate_and_normalize\<close> accepts a raw
  URL and returns the normalised URL \<open>u\<close>, then applied to \<open>u\<close> it accepts again and
  returns \<open>u\<close> unchanged.
\<close>

theorem validate_and_normalize_idempotent:
  assumes "validate_and_normalize urlparse tldextract raw = Inr (Valid u)"
  shows "validate_and_normalize urlparse tldextract u = Inr (Valid u)"
proof -
  from validate_valid_iff[OF assms] obtain p where
    u: "u = normalize_url raw" and v: "is_valid_url u"
    and p: "urlparse u = Inr p" "parsed_scheme p \<in> {''http'', ''https''}" by blast
  have n: "normalize_url u = u" by (simp add: u normalize_url_idem)
  show ?thesis
    using v p by (simp add: validate_and_normalize_def n Let_def extract_domain_nonempty)
qed

theorem validate_and_normalize_idempotent_witness:
  "validate_and_normalize sample_urlparse sample_tldextract ''  example.com '' =
     Inr (Valid ''https://example.com'') \<and>
   validate_and_normalize sample_urlparse sample_tldextract ''https://example.com'' =
     Inr (Valid ''https://example.com'')"
proof -
  have h: "validate_and_normalize sample_urlparse sample_tldextract ''  example.com '' =
             Inr (Valid ''https://example.com'')"
    by code_simp
  from validate_and_normalize_idempotent[OF h] h show ?thesis by simp
qed

text \<open>
  Claim C5, as stated, fails: the input \<open>javascript:alert(1)\<close> is rejected with the
  reason \<open>Invalid URL format\<close>, not with \<open>URL uses unsafe scheme\<close>, because
  \<open>normalize_url\<close> has put \<open>https://\<close> in front of it before the pattern is tried.
\<close>

theorem javascript_scheme_counterexample:
  "validate_and_normalize sample_urlparse sample_tldextract ''javascript:alert(1)'' =
     Inr (Invalid ''Invalid URL format'') \<and>
   validate_and_normalize sample_urlparse sample_tldextract ''javascript:alert(1)'' \<noteq>
     Inr (Invalid ''URL uses unsafe scheme'')"
  by code_simp

text \<open>
  Claim C5, amended. Every raw input written as a scheme name other than \<open>http\<close> and
  \<open>https\<close> (letters, digits, plus, minus, as in \<open>javascript:\<close>, \<open>data:\<close>, \<open>file:\<close>)
  followed by a colon is rejected, with the reason \<open>Invalid URL format\<close>; and every
  URL that \<open>validate_and_normalize\<close> accepts starts with \<open>http://\<close> or \<open>https://\<close> and
  has the scheme \<open>http\<close> or \<open>https\<close>.
\<close>

theorem other_schemes_rejected_as_invalid_format:
  "(is_scheme_name sch \<and> sch \<notin> {''http'', ''https''} \<longrightarrow>
      validate_and_normalize urlparse tldextract (sch @ CHR '':'' # rest) =
        Inr (Invalid ''Invalid URL format'')) \<and>
   (validate_and_normalize urlparse tldextract raw = Inr (Valid u) \<longrightarrow>
      (startswith u ''http://'' \<or> startswith u ''https://'') \<and>
      (\<exists>p. urlparse u = Inr p \<and> parsed_scheme p \<in> {''http'', ''https''}))"
  using validate_scheme_colon[of sch urlparse tldextract rest]
    validate_valid_iff[of urlparse tldextract raw u]
    validate_valid_prefix[of urlparse tldextract raw u]
  by blast

theorem other_schemes_rejected_as_invalid_format_witness:
  "is_scheme_name ''file'' \<and> ''file'' \<notin> {''http'', ''https''} \<and>
   validate_and_normalize sample_urlparse sample_tldextract ''file:///etc/passwd'' =
     Inr (Invalid ''Invalid URL format'') \<and>
   validate_and_normalize sample_urlparse sample_tldextract ''example.com/login'' =
     Inr (Valid ''https://example.com/login'') \<and>
   (startswith ''https://example.com/login'' ''http://'' \<or>
    startswith ''https://example.com/login'' ''https://'') \<and>
   (\<exists>p. sample_urlparse ''https://example.com/login'' = Inr p \<and>
        parsed_scheme p \<in> {''http'', ''https''})"
proof -
  have s: "is_scheme_name ''file''" "''file'' \<notin> {''http'', ''https''}"
    by code_simp+
  have v: "validate_and_normalize sample_urlparse sample_tldextract ''example.com/login'' =
             Inr (Valid ''https://example.com/login'')"
    by code_simp
  from other_schemes_rejected_as_invalid_format
         [of "''file''" sample_urlparse sample_tldextract "''///etc/passwd''"
             "''example.com/login''" "''https://example.com/login''"]
    s v show ?thesis by simp
qed

section \<open>Properties of the scoring engine\<close>

lemma if_pair: "(if c then (a, b) else (a', b')) = (if c then a else a', if c then b else b')"
  by simp

lemma if_add_rat: "(if c then (s::rat) + p else s) = s + (if c then p else 0)"
  "(if c then (s::rat) + p else s + q) = s + (if c then p else q)"
  by simp_all

lemma if_app: "(if c then e @ x else e) = e @ (if c then x else [])"
  "(if c then e @ x else e @ y) = e @ (if c then x else y)"
  by simp_all

lemma compute_closed:
  assumes "urlparse url = Inr parsed"
    and "entry_field head_redirects [] (fetch_head fetch) = Inr hr"
    and "entry_field get_redirects [] (fetch_get fetch) = Inr gr"
    and "entry_field get_filesize 0 (fetch_get fetch) = Inr fs"
    and "external_script_ratio (scripts ex) (host_of parsed) = Inr sr"
    and "external_links_ratio urlparse (links ex) (host_of parsed) = Inr lr"
  shows "compute_heuristic_score urlparse fetch ex url vt gsb =
    Inr \<lparr> score = py_round 1 (min 100 (combine_vt_gsb_score vt gsb
               + sum_list (heuristic_penalties (max (length hr) (length gr)) parsed ex sr lr fs))),
          verdict = (let raw = min 100 (combine_vt_gsb_score vt gsb
               + sum_list (heuristic_penalties (max (length hr) (length gr)) parsed ex sr lr fs))
             in if raw \<ge> 65 then DANGEROUS else if raw \<ge> 30 then SUSPICIOUS else SAFE),
          components = \<lparr> c_api_penalty = py_round 1 (combine_vt_gsb_score vt gsb),
                         c_redirect_count = max (length hr) (length gr),
                         c_forms_count = length (forms ex),
                         c_ext_script_ratio = py_round 2 sr,
                         c_iframe_count = length (iframes ex),
                         c_ext_link_ratio = py_round 2 lr,
                         c_kw_matches = suspicious_keyword_matches (clean_text ex),
                         c_filesize = fs,
                         c_scheme = parsed_scheme parsed \<rparr>,
          explanations = (if combine_vt_gsb_score vt gsb > 0
                          then [ExternalThreat (combine_vt_gsb_score vt gsb)] else [])
                         @ heuristic_explanations (max (length hr) (length gr)) parsed ex sr lr fs \<rparr>"
  unfolding compute_heuristic_score_def
  apply (simp only: if_pair if_add_rat if_app host_of_def[symmetric] 
      count_forms_def count_iframes_def cong: if_cong)
  apply (simp only: Let_def assms sum.case prod.case)
  apply (simp add: heuristic_penalties_def heuristic_explanations_def algebra_simps split del: if_split cong: if_cong)
  apply simp
  done


lemma round_half_even_of_int: "round_half_even (of_int n) = n"
  by (simp add: round_half_even_def)

lemma binary_exponent_of_int:
  assumes "0 < k"
  shows "binary_exponent (of_int k) = bitlen k - 1"
proof -
  from assms have b: "1 \<le> bitlen k" by (auto simp: bitlen_alt_def)
  have "(2::int) ^ nat (bitlen k - 1) \<le> k" using bitlen_bounds[OF assms] ..
  then have "(of_int ((2::int) ^ nat (bitlen k - 1)) :: rat) \<le> of_int k"
    by (simp only: of_int_le_iff)
  then have "pow2 (bitlen k - 1) \<le> of_int k"
    using b by (simp add: pow2_def)
  moreover have "quotient_of (of_int k :: rat) = (k, 1)"
    by (metis quotient_of_int Rat.of_int_def of_int_rat)
  moreover have "bitlen 1 = 1" by (simp add: bitlen_alt_def)
  ultimately show ?thesis
    by (simp add: binary_exponent_def Let_def)
qed

lemma to_double_of_pos_int:
  assumes "0 < k" "k < 2 ^ 53"
  shows "to_double (of_int k) = of_int k"
proof -
  from assms(1) have b: "1 \<le> bitlen k" by (auto simp: bitlen_alt_def)
  from assms(2) have "bitlen k \<le> 53" by (simp add: bitlen_le_iff_power)
  define j where "j = nat (53 - bitlen k)"
  have e: "binary_exponent (of_int k) - 52 = - int j"
    using b \<open>bitlen k \<le> 53\<close> by (simp add: binary_exponent_of_int[OF assms(1)] j_def)
  have ulp: "pow2 (- int j) = 1 / 2 ^ j"
    by (cases j) (simp_all add: pow2_def nat_add_distrib)
  have "(of_int k :: rat) / (1 / 2 ^ j) = of_int (k * 2 ^ j)" by simp
  then have r: "round_half_even ((of_int k :: rat) / (1 / 2 ^ j)) = k * 2 ^ j"
    by (simp only: round_half_even_of_int)
  have "to_double (of_int k) = of_int (k * 2 ^ j) * (1 / 2 ^ j)"
    using assms(1) unfolding to_double_def Let_def by (simp only: abs_of_pos of_int_0_less_iff e ulp r) simp
  also have "\<dots> = of_int k" by simp
  finally show ?thesis .
qed

lemma to_double_minus: "to_double (- x) = - to_double x"
  by (simp add: to_double_def Let_def)

lemma to_double_of_int:
  assumes "\<bar>k\<bar> < 2 ^ 53"
  shows "to_double (of_int k) = of_int k"
proof -
  consider "k = 0" | "0 < k" | "k < 0" by linarith
  then show ?thesis
  proof cases
    case 1 then show ?thesis by (simp add: to_double_def)
  next
    case 2 with assms show ?thesis by (simp add: to_double_of_pos_int)
  next
    case 3
    with assms have "to_double (of_int (- k)) = of_int (- k)"
      by (intro to_double_of_pos_int) auto
    then show ?thesis using to_double_minus[of "of_int k"] by simp
  qed
qed

lemma py_round_of_int:
  assumes "\<bar>k\<bar> < 2 ^ 53"
  shows "py_round n (of_int k) = of_int k"
proof -
  note d = to_double_of_int[OF assms]
  have "(of_int k :: rat) * 10 ^ n = of_int (k * 10 ^ n)" by simp
  then have "round_half_even ((of_int k :: rat) * 10 ^ n) = k * 10 ^ n"
    by (simp only: round_half_even_of_int)
  then have "py_round n (of_int k) = to_double (of_int (k * 10 ^ n) / 10 ^ n)"
    by (simp only: py_round_def d)
  also have "(of_int (k * 10 ^ n) :: rat) / 10 ^ n = of_int k" by simp
  finally show ?thesis by (simp add: to_double_of_int[OF assms])
qed

lemma combine_vt_gsb_score_range:
  assumes "vt_counts_nonneg vt"
  shows "0 \<le> combine_vt_gsb_score vt gsb \<and> combine_vt_gsb_score vt gsb \<le> 100
         \<and> combine_vt_gsb_score vt gsb \<in> \<int>"
proof -
  have vt: "\<exists>k::int. 0 \<le> k \<and> (case vt of None \<Rightarrow> (0::rat) | Some v \<Rightarrow>
              0 + of_int (min 50 (get_or (malicious_count v) (malicious v) * 20))
                + of_int (min 20 (get_or (suspicious_count v) (suspicious v) * 5))) = of_int k"
  proof (cases vt)
    case None then show ?thesis by (intro exI[of _ 0]) simp
  next
    case (Some v)
    with assms have "0 \<le> get_or (malicious_count v) (malicious v)"
      "0 \<le> get_or (suspicious_count v) (suspicious v)" by (auto simp: vt_counts_nonneg_def)
    then show ?thesis using Some
      by (intro exI[of _ "min 50 (get_or (malicious_count v) (malicious v) * 20)
                         + min 20 (get_or (suspicious_count v) (suspicious v) * 5)"]) auto
  qed
  then obtain k :: int where k: "0 \<le> k" and eq: "(case vt of None \<Rightarrow> (0::rat) | Some v \<Rightarrow>
              0 + of_int (min 50 (get_or (malicious_count v) (malicious v) * 20))
                + of_int (min 20 (get_or (suspicious_count v) (suspicious v) * 5))) = of_int k" by blast
  have "combine_vt_gsb_score vt gsb = of_int (min 100 (k + (case gsb of None \<Rightarrow> 0 | Some g \<Rightarrow> if matches g \<or> threats g then 60 else 0)))"
    unfolding combine_vt_gsb_score_def Let_def eq
    by (auto split: option.splits simp: min_def)
  with k show ?thesis by (auto split: option.splits)
qed


lemma external_script_ratio_returns: "\<exists>r. external_script_ratio srcs domain = Inr r"
  by (simp add: external_script_ratio_def py_truediv_def Let_def)

lemma external_links_ratio_returns: "\<exists>r. external_links_ratio urlparse hrefs domain = Inr r"
  by (simp add: external_links_ratio_def py_truediv_def Let_def)

lemma sum_list_Ints: "\<forall>x\<in>set xs. x \<in> \<int> \<Longrightarrow> sum_list xs \<in> (\<int> :: rat set)"
  by (induction xs) auto

lemma heuristic_penalties_elems:
  "\<forall>x\<in>set (heuristic_penalties rc parsed ex sr lr fs). 0 \<le> x \<and> x \<in> \<int>"
  by (simp add: heuristic_penalties_def)

lemma heuristic_penalties_sum:
  "0 \<le> sum_list (heuristic_penalties rc parsed ex sr lr fs)"
  "sum_list (heuristic_penalties rc parsed ex sr lr fs) \<in> \<int>"
  using heuristic_penalties_elems[of rc parsed ex sr lr fs]
  by (auto intro: sum_list_nonneg sum_list_Ints)

lemma min_Ints: "a \<in> \<int> \<Longrightarrow> b \<in> \<int> \<Longrightarrow> min a b \<in> (\<int> :: rat set)"
  by (simp add: min_def)

lemma entry_field_returns: "e \<noteq> Null \<Longrightarrow> \<exists>v. entry_field f d e = Inr v"
  by (cases e) (auto simp: entry_field_def)

lemma compute_heuristic_score_range:
  assumes "urlparse url = Inr parsed" "fetch_head fetch \<noteq> Null" "fetch_get fetch \<noteq> Null"
    and "vt_counts_nonneg vt"
  shows "\<exists>r. compute_heuristic_score urlparse fetch ex url vt gsb = Inr r \<and>
             0 \<le> score r \<and> score r \<le> 100 \<and> verdict r = spec_verdict (score r)"
proof -
  obtain hr gr fs sr lr where v:
    "entry_field head_redirects [] (fetch_head fetch) = Inr hr"
    "entry_field get_redirects [] (fetch_get fetch) = Inr gr"
    "entry_field get_filesize 0 (fetch_get fetch) = Inr fs"
    "external_script_ratio (scripts ex) (host_of parsed) = Inr sr"
    "external_links_ratio urlparse (links ex) (host_of parsed) = Inr lr"
    using entry_field_returns[OF assms(2)] entry_field_returns[OF assms(3)]
      external_script_ratio_returns external_links_ratio_returns by metis
  define raw where "raw = min 100 (combine_vt_gsb_score vt gsb
      + sum_list (heuristic_penalties (max (length hr) (length gr)) parsed ex sr lr fs))"
  note api = combine_vt_gsb_score_range[OF assms(4), of gsb]
  note pen = heuristic_penalties_sum[of "max (length hr) (length gr)" parsed ex sr lr fs]
  have raw: "0 \<le> raw" "raw \<le> 100" "raw \<in> \<int>"
    using api pen by (auto simp: raw_def intro!: min_Ints)
  from raw obtain k :: int where k: "raw = of_int k" "0 \<le> k" "k \<le> 100"
    by (auto simp: Ints_def)
  then have "py_round 1 raw = raw" by (simp add: py_round_of_int)
  then show ?thesis
    using raw unfolding compute_closed[OF assms(1) v] raw_def[symmetric]
    by (simp add: spec_verdict_def Let_def)
qed

text \<open>
  Claim C8. Both ratio functions return exactly \<open>0.0\<close> for an empty list, and for every
  input they return a value: the division is never by zero.
\<close>

theorem ratios_zero_when_empty_and_never_raise:
  "external_script_ratio [] domain = Inr 0 \<and>
   external_links_ratio urlparse [] domain = Inr 0 \<and>
   (\<exists>r. external_script_ratio srcs domain = Inr r) \<and>
   (\<exists>r. external_links_ratio urlparse hrefs domain = Inr r)"
  using external_script_ratio_returns[of srcs domain]
    external_links_ratio_returns[of urlparse hrefs domain]
  by (simp add: external_script_ratio_def external_links_ratio_def)

text \<open>
  Claim C1. For every fetch result whose \<open>head\<close> and \<open>get\<close> entries are absent or
  dicts, every value of the extracted features, every URL that \<open>urlparse\<close> parses
  (every normalised URL is one) and every optional reputation input, whose counts of
  engines are not negative, \<open>compute_heuristic_score\<close> returns a report. Its score
  is the sum of the component penalties capped at 100, it lies between 0 and 100, and
  the verdict is the function of the score that the thresholds give: dangerous from
  65, suspicious from 30, safe below.
\<close>

theorem score_in_range_and_verdict_by_thresholds:
  assumes "urlparse url = Inr parsed"
    and "fetch_head fetch \<noteq> Null" and "fetch_get fetch \<noteq> Null"
    and "vt_counts_nonneg vt"
  shows "\<exists>r hr gr fs sr lr.
           compute_heuristic_score urlparse fetch ex url vt gsb = Inr r \<and>
           0 \<le> score r \<and> score r \<le> 100 \<and>
           verdict r = spec_verdict (score r) \<and>
           entry_field head_redirects [] (fetch_head fetch) = Inr hr \<and>
           entry_field get_redirects [] (fetch_get fetch) = Inr gr \<and>
           entry_field get_filesize 0 (fetch_get fetch) = Inr fs \<and>
           external_script_ratio (scripts ex) (host_of parsed) = Inr sr \<and>
           external_links_ratio urlparse (links ex) (host_of parsed) = Inr lr \<and>
           score r = min 100 (combine_vt_gsb_score vt gsb +
                              sum_list (heuristic_penalties (max (length hr) (length gr))
                                          parsed ex sr lr fs))"
proof -
  obtain hr gr fs sr lr where v:
    "entry_field head_redirects [] (fetch_head fetch) = Inr hr"
    "entry_field get_redirects [] (fetch_get fetch) = Inr gr"
    "entry_field get_filesize 0 (fetch_get fetch) = Inr fs"
    "external_script_ratio (scripts ex) (host_of parsed) = Inr sr"
    "external_links_ratio urlparse (links ex) (host_of parsed) = Inr lr"
    using entry_field_returns[OF assms(2)] entry_field_returns[OF assms(3)]
      external_script_ratio_returns external_links_ratio_returns by metis
  define raw where "raw = min 100 (combine_vt_gsb_score vt gsb
      + sum_list (heuristic_penalties (max (length hr) (length gr)) parsed ex sr lr fs))"
  note api = combine_vt_gsb_score_range[OF assms(4), of gsb]
  note pen = heuristic_penalties_sum[of "max (length hr) (length gr)" parsed ex sr lr fs]
  have raw: "0 \<le> raw" "raw \<le> 100" "raw \<in> \<int>"
    using api pen by (auto simp: raw_def intro!: min_Ints)
  from raw obtain k :: int where k: "raw = of_int k" "0 \<le> k" "k \<le> 100"
    by (auto simp: Ints_def)
  then have rnd: "py_round 1 raw = raw" by (simp add: py_round_of_int)
  have "compute_heuristic_score urlparse fetch ex url vt gsb =
          Inr \<lparr> score = raw,
                verdict = (if raw \<ge> 65 then DANGEROUS
                           else if raw \<ge> 30 then SUSPICIOUS else SAFE),
                components =
                  \<lparr> c_api_penalty = py_round 1 (combine_vt_gsb_score vt gsb),
                    c_redirect_count = max (length hr) (length gr),
                    c_forms_count = length (forms ex),
                    c_ext_script_ratio = py_round 2 sr,
                    c_iframe_count = length (iframes ex),
                    c_ext_link_ratio = py_round 2 lr,
                    c_kw_matches = suspicious_keyword_matches (clean_text ex),
                    c_filesize = fs,
                    c_scheme = parsed_scheme parsed \<rparr>,
                explanations =
                  (if combine_vt_gsb_score vt gsb > 0
                   then [ExternalThreat (combine_vt_gsb_score vt gsb)] else [])
                  @ heuristic_explanations (max (length hr) (length gr)) parsed ex sr lr fs \<rparr>"
    unfolding compute_closed[OF assms(1) v] raw_def[symmetric]
    by (simp add: rnd Let_def del: One_nat_def)
  with raw v show ?thesis
    by (auto simp: spec_verdict_def raw_def)
qed

theorem score_in_range_and_verdict_by_thresholds_witness:
  "sample_urlparse ''http://203.0.113.5/login'' =
     Inr \<lparr> parsed_scheme = ''http'', parsed_hostname = Some ''203.0.113.5'' \<rparr> \<and>
   fetch_head (sample_fetch ''http://203.0.113.5/login'' [] 150) \<noteq> Null \<and>
   fetch_get (sample_fetch ''http://203.0.113.5/login'' [] 150) \<noteq> Null \<and>
   vt_counts_nonneg (Some \<lparr> malicious_count = Some 1, malicious = None,
                              suspicious_count = None, suspicious = Some 2 \<rparr>) \<and>
   (\<exists>r. compute_heuristic_score sample_urlparse
           (sample_fetch ''http://203.0.113.5/login'' [] 150)
           (empty_features\<lparr> forms :=
              [\<lparr> form_method = ''POST'', form_action = ''/login'',
                 inputs = [\<lparr> input_type = ''password'', input_name = ''pw'',
                             placeholder = None \<rparr>],
                 has_password = True \<rparr>] \<rparr>)
           ''http://203.0.113.5/login''
           (Some \<lparr> malicious_count = Some 1, malicious = None,
                    suspicious_count = None, suspicious = Some 2 \<rparr>) None = Inr r \<and>
        0 \<le> score r \<and> score r \<le> 100 \<and> verdict r = spec_verdict (score r))"
proof -
  have p: "sample_urlparse ''http://203.0.113.5/login'' =
     Inr \<lparr> parsed_scheme = ''http'', parsed_hostname = Some ''203.0.113.5'' \<rparr>"
    by code_simp
  have h: "fetch_head (sample_fetch ''http://203.0.113.5/login'' [] 150) \<noteq> Null"
    "fetch_get (sample_fetch ''http://203.0.113.5/login'' [] 150) \<noteq> Null"
    by (simp_all add: sample_fetch_def)
  have c: "vt_counts_nonneg (Some \<lparr> malicious_count = Some 1, malicious = None,
                              suspicious_count = None, suspicious = Some 2 \<rparr>)"
    by (simp add: vt_counts_nonneg_def get_or_def)
  from score_in_range_and_verdict_by_thresholds
         [where urlparse = sample_urlparse and url = "''http://203.0.113.5/login''"
            and parsed = "\<lparr> parsed_scheme = ''http'', parsed_hostname = Some ''203.0.113.5'' \<rparr>"
            and fetch = "sample_fetch ''http://203.0.113.5/login'' [] 150"
            and vt = "Some \<lparr> malicious_count = Some 1, malicious = None,
                              suspicious_count = None, suspicious = Some 2 \<rparr>"
            and gsb = None
            and ex = "empty_features\<lparr> forms :=
              [\<lparr> form_method = ''POST'', form_action = ''/login'',
                 inputs = [\<lparr> input_type = ''password'', input_name = ''pw'',
                             placeholder = None \<rparr>],
                 has_password = True \<rparr>] \<rparr>"]
       p h c
  show ?thesis by blast
qed

text \<open>
  The hypothesis on the counts is used: the code caps the score from above only, so a
  count of \<open>-1\<close>, which no reputation service reports, would give the score \<open>-20\<close>.
\<close>

lemma negative_count_outside_range:
  "compute_heuristic_score sample_urlparse (sample_fetch ''https://example.com'' [] 5000)
     empty_features ''https://example.com''
     (Some \<lparr> malicious_count = Some (- 1), malicious = None,
              suspicious_count = None, suspicious = None \<rparr>) None
   = Inr \<lparr> score = - 20, verdict = SAFE,
           components = \<lparr> c_api_penalty = - 20, c_redirect_count = 0, c_forms_count = 0,
                          c_ext_script_ratio = 0, c_iframe_count = 0, c_ext_link_ratio = 0,
                          c_kw_matches = 0, c_filesize = 5000, c_scheme = ''https'' \<rparr>,
           explanations = [] \<rparr>"
  by code_simp

text \<open>
  Claim C3 says that a redirect chain of length exactly 2 gets an explanation. The code
  adds the penalty 6 for it and appends nothing: on a page reached through two
  redirects, with no other signal, the score is 6 and the list of explanations is
  empty. Every other penalty appends its explanation (lemma \<open>compute_closed\<close>).
\<close>

theorem redirect_chain_of_two_unexplained:
  "compute_heuristic_score sample_urlparse
     (sample_fetch ''https://example.com''
        [''https://a.example.com'', ''https://b.example.com''] 5000)
     empty_features ''https://example.com'' None None
   = Inr \<lparr> score = 6, verdict = SAFE,
           components = \<lparr> c_api_penalty = 0, c_redirect_count = 2, c_forms_count = 0,
                          c_ext_script_ratio = 0, c_iframe_count = 0, c_ext_link_ratio = 0,
                          c_kw_matches = 0, c_filesize = 5000, c_scheme = ''https'' \<rparr>,
           explanations = [] \<rparr>"
  by code_simp

text \<open>
  Claim C10. The credential flag of a form never reaches the report: two feature values
  that have the same number of forms, with the same methods and actions, and differ
  only in the \<open>has_password\<close> flags and the input descriptors of these forms, get the
  same score, verdict, components and explanations.
\<close>

theorem has_password_never_scored:
  assumes "list_all2 (\<lambda>f g. form_method f = form_method g \<and> form_action f = form_action g)
             (forms ex) fs"
  shows "compute_heuristic_score urlparse fetch (ex\<lparr> forms := fs \<rparr>) url vt gsb =
         compute_heuristic_score urlparse fetch ex url vt gsb"
proof -
  from assms have len: "length fs = length (forms ex)"
    by (simp add: list_all2_lengthD)
  have sel: "forms (ex\<lparr> forms := fs \<rparr>) = fs"
    "scripts (ex\<lparr> forms := fs \<rparr>) = scripts ex"
    "iframes (ex\<lparr> forms := fs \<rparr>) = iframes ex"
    "links (ex\<lparr> forms := fs \<rparr>) = links ex"
    "clean_text (ex\<lparr> forms := fs \<rparr>) = clean_text ex"
    by simp_all
  show ?thesis
    unfolding compute_heuristic_score_def by (simp only: sel count_forms_def len)
qed

theorem has_password_never_scored_witness:
  "list_all2 (\<lambda>f g. form_method f = form_method g \<and> form_action f = form_action g)
     (forms (empty_features\<lparr> forms :=
        [\<lparr> form_method = ''POST'', form_action = ''/login'', inputs = [],
           has_password = False \<rparr>] \<rparr>))
     [\<lparr> form_method = ''POST'', form_action = ''/login'',
        inputs = [\<lparr> input_type = ''password'', input_name = ''pw'', placeholder = None \<rparr>],
        has_password = True \<rparr>] \<and>
   compute_heuristic_score sample_urlparse (sample_fetch ''https://example.com'' [] 150)
     (empty_features\<lparr> forms :=
        [\<lparr> form_method = ''POST'', form_action = ''/login'', inputs = [],
           has_password = False \<rparr>] \<rparr>
      \<lparr> forms :=
        [\<lparr> form_method = ''POST'', form_action = ''/login'',
           inputs = [\<lparr> input_type = ''password'', input_name = ''pw'', placeholder = None \<rparr>],
           has_password = True \<rparr>] \<rparr>)
     ''https://example.com'' None None =
   compute_heuristic_score sample_urlparse (sample_fetch ''https://example.com'' [] 150)
     (empty_features\<lparr> forms :=
        [\<lparr> form_method = ''POST'', form_action = ''/login'', inputs = [],
           has_password = False \<rparr>] \<rparr>)
     ''https://example.com'' None None"
proof -
  have h: "list_all2 (\<lambda>f g. form_method f = form_method g \<and> form_action f = form_action g)
     (forms (empty_features\<lparr> forms :=
        [\<lparr> form_method = ''POST'', form_action = ''/login'', inputs = [],
           has_password = False \<rparr>] \<rparr>))
     [\<lparr> form_method = ''POST'', form_action = ''/login'',
        inputs = [\<lparr> input_type = ''password'', input_name = ''pw'', placeholder = None \<rparr>],
        has_password = True \<rparr>]"
    by simp
  from has_password_never_scored[OF h] h show ?thesis by blast
qed

section \<open>Properties of the cache\<close>

lemma cache_get_after_set:
  "now' - now \<le> TTL \<Longrightarrow>
   cache_get h now' url (cache_set h now url R w) = (Some R, cache_set h now url R w)"
  by (simp add: cache_get_def cache_set_def cache_load_def cache_save_def Let_def)

lemma cache_get_expired:
  "cache_load w (h url) = Some it \<Longrightarrow> now - item_ts it > TTL \<Longrightarrow>
   cache_get h now url w = (None, w\<lparr> cache_file := Some ((cache_load w)(h url := None)) \<rparr>)"
  by (simp add: cache_get_def cache_save_def Let_def)

lemma cache_get_after_set_expired:
  "now' - now > TTL \<Longrightarrow>
   cache_get h now' url (cache_set h now url R w) =
     (None, w\<lparr> cache_file := Some ((cache_load w)(h url := None)) \<rparr>)"
  by (simp add: cache_get_def cache_set_def cache_load_def cache_save_def Let_def)

text \<open>
  Claim C6. A lookup right after \<open>cache_set(url, R)\<close> (at the same clock reading, and at
  any later reading up to the TTL of 12 hours) returns \<open>R\<close> and leaves the store as it
  is; a lookup of an entry whose age exceeds the TTL returns nothing and writes the
  store back without that entry.
\<close>

theorem cache_roundtrip_and_expiry:
  "TTL = 43200 \<and>
   cache_get h now url (cache_set h now url R w) = (Some R, cache_set h now url R w) \<and>
   (now' - now \<le> TTL \<longrightarrow>
      cache_get h now' url (cache_set h now url R w) = (Some R, cache_set h now url R w)) \<and>
   (now' - now > TTL \<longrightarrow>
      cache_get h now' url (cache_set h now url R w) =
        (None, w\<lparr> cache_file := Some ((cache_load w)(h url := None)) \<rparr>)) \<and>
   (cache_load w (h url) = Some it \<and> now - item_ts it > TTL \<longrightarrow>
      cache_get h now url w =
        (None, w\<lparr> cache_file := Some ((cache_load w)(h url := None)) \<rparr>))"
  using cache_get_after_set[where now = now and now' = now and h = h and url = url and R = R and w = w]
    cache_get_after_set[where now = now and now' = now' and h = h and url = url and R = R and w = w]
    cache_get_after_set_expired[where now = now and now' = now' and h = h and url = url and R = R and w = w]
    cache_get_expired[where w = w and h = h and url = url and it = it and now = now]
  by (simp add: TTL_def)

theorem cache_roundtrip_and_expiry_witness:
  "(100 :: rat) - 0 \<le> TTL \<and>
   fst (cache_get rev 100 ''example.com''
          (cache_set rev 0 ''example.com'' (7 :: nat) \<lparr> requests = [], cache_file = None \<rparr>)) = Some 7 \<and>
   (43201 :: rat) - 0 > TTL \<and>
   fst (cache_get rev 43201 ''example.com''
          (cache_set rev 0 ''example.com'' (7 :: nat) \<lparr> requests = [], cache_file = None \<rparr>)) = None \<and>
   map_option (\<lambda>d. d (rev ''example.com''))
     (cache_file (snd (cache_get rev 43201 ''example.com''
          (cache_set rev 0 ''example.com'' (7 :: nat) \<lparr> requests = [], cache_file = None \<rparr>))))
     = Some None \<and>
   cache_load (cache_set rev 0 ''example.com'' (7 :: nat) \<lparr> requests = [], cache_file = None \<rparr>)
      (rev ''example.com'') = Some \<lparr> item_ts = 0, item_result = 7 \<rparr> \<and>
   (43201 :: rat) - item_ts \<lparr> item_ts = 0, item_result = 7 :: nat \<rparr> > TTL"
proof -
  have a: "(100 :: rat) - 0 \<le> TTL" "(43201 :: rat) - 0 > TTL"
    "(43201 :: rat) - item_ts \<lparr> item_ts = 0, item_result = 7 :: nat \<rparr> > TTL"
    by (simp_all add: TTL_def)
  have b: "cache_load (cache_set rev 0 ''example.com'' (7 :: nat)
              \<lparr> requests = [], cache_file = None \<rparr>) (rev ''example.com'')
           = Some \<lparr> item_ts = 0, item_result = 7 \<rparr>"
    by (simp add: cache_set_def cache_load_def cache_save_def Let_def)
  from cache_roundtrip_and_expiry
         [where h = rev and now = 0 and url = "''example.com''" and R = "7 :: nat"
            and w = "\<lparr> requests = [], cache_file = None \<rparr>" and now' = 100]
       cache_roundtrip_and_expiry
         [where h = rev and now = 0 and url = "''example.com''" and R = "7 :: nat"
            and w = "\<lparr> requests = [], cache_file = None \<rparr>" and now' = 43201]
       a b
  show ?thesis by (simp add: cache_load_def)
qed

section \<open>Properties of the fetcher\<close>

lemma utf8_decode_Ignore_returns: "\<exists>s. utf8_decode Ignore bs = Inr s"
proof (induction bs rule: length_induct)
  case (1 bs)
  show ?case
  proof (cases bs)
    case Nil then show ?thesis by simp
  next
    case (Cons ch rest)
    have ih: "\<exists>s. utf8_decode Ignore (drop k rest) = Inr s" for k
      using 1 Cons by simp
    show ?thesis
    proof (cases "utf8_step ch rest")
      case (Decoded cp n)
      with ih[of "n - 1"] show ?thesis by (auto simp: Cons)
    next
      case (Malformed n)
      with ih[of "n - 1"] show ?thesis by (auto simp: Cons)
    qed
  qed
qed

lemma utf8_decode_Strict_agrees:
  "utf8_decode Strict bs = Inr s \<Longrightarrow> utf8_decode errors bs = Inr s"
proof (induction bs arbitrary: s rule: length_induct)
  case (1 bs)
  show ?case
  proof (cases bs)
    case Nil with 1 show ?thesis by simp
  next
    case (Cons ch rest)
    have ih: "utf8_decode Strict (drop k rest) = Inr t \<Longrightarrow> utf8_decode errors (drop k rest) = Inr t" for k t
      using 1 Cons by simp
    show ?thesis
    proof (cases "utf8_step ch rest")
      case (Decoded cp n)
      with "1.prems" ih[of "n - 1"] show ?thesis
        by (cases "utf8_decode Strict (drop (n - 1) rest)") (auto simp: Cons)
    next
      case (Malformed n)
      with "1.prems" show ?thesis by (simp add: Cons)
    qed
  qed
qed

lemma utf8_step_FF: "utf8_step 0xFF rest = Malformed 1"
  by (simp add: utf8_step_def)

lemma utf8_decode_Ignore_FF: "utf8_decode Ignore (replicate n 0xFF) = Inr []"
  by (induction n) (simp_all add: utf8_step_FF)

lemma utf8_decode_Replace_FF: "utf8_decode Replace (replicate n 0xFF) = Inr (replicate n 0xFFFD)"
  by (induction n) (simp_all add: utf8_step_FF)

lemma get_request_large:
  assumes "length (resp_content resp) > max_bytes"
  shows "\<exists>s. utf8_decode Ignore (take max_bytes (resp_content resp)) = Inr s \<and>
             get_content (fst (get_request (Inr resp) url max_bytes w)) = Some s \<and>
             get_filesize (fst (get_request (Inr resp) url max_bytes w)) = length (resp_content resp) \<and>
             get_error (fst (get_request (Inr resp) url max_bytes w)) = None"
proof -
  obtain s where s: "utf8_decode Ignore (take max_bytes (resp_content resp)) = Inr s"
    using utf8_decode_Ignore_returns by blast
  then show ?thesis using assms by (simp add: get_request_def Let_def)
qed

lemma get_request_small:
  assumes "length (resp_content resp) \<le> max_bytes"
  shows "get_content (fst (get_request (Inr resp) url max_bytes w)) = Some (resp_text resp) \<and>
         get_filesize (fst (get_request (Inr resp) url max_bytes w)) = length (resp_content resp) \<and>
         get_error (fst (get_request (Inr resp) url max_bytes w)) = None"
  using assms by (simp add: get_request_def Let_def)

text \<open>
  Claim C4, as stated, fails: a body of 1,000,001 bytes, the letter A followed by bytes
  \<open>0xFF\<close>, is cut to the default cap of 1,000,000 bytes and decoded to the one letter
  A. The invalid bytes are dropped; decoding with replacement would give A followed by
  999,999 replacement characters U+FFFD.
\<close>

theorem invalid_bytes_dropped_counterexample:
  "get_content (fst (get_request
      (Inr \<lparr> resp_status_code = 200, resp_history = [], resp_url = ''https://example.com'',
              resp_headers = [], resp_content = 0x41 # replicate 1000000 0xFF,
              resp_text = [] \<rparr>)
      ''https://example.com'' MAX_CONTENT_BYTES
      \<lparr> requests = [], cache_file = None :: (string \<rightharpoonup> unit cache_item) option \<rparr>))
     = Some [0x41] \<and>
   utf8_decode Replace (take MAX_CONTENT_BYTES (0x41 # replicate 1000000 0xFF))
     = Inr (0x41 # replicate 999999 0xFFFD)"
  by (simp add: get_request_def MAX_CONTENT_BYTES_def Let_def utf8_step_def
        utf8_decode_Ignore_FF utf8_decode_Replace_FF)

text \<open>
  Claim C4, amended. For every GET response whose body is longer than the cap,
  \<open>get_request\<close> keeps the first \<open>max_bytes\<close> bytes and decodes them with the invalid
  byte sequences dropped (\<open>errors="ignore"\<close>), which never fails, and the reported
  filesize is the length of the whole body; a body at or under the cap is reported
  with the text that the transport decoded. The default cap is 1,000,000 bytes.
\<close>

theorem get_request_truncates_and_ignores:
  "MAX_CONTENT_BYTES = 1000000 \<and>
   (length (resp_content resp) > max_bytes \<longrightarrow>
      (\<exists>s. utf8_decode Ignore (take max_bytes (resp_content resp)) = Inr s \<and>
           get_content (fst (get_request (Inr resp) url max_bytes w)) = Some s \<and>
           get_filesize (fst (get_request (Inr resp) url max_bytes w)) =
             length (resp_content resp) \<and>
           get_error (fst (get_request (Inr resp) url max_bytes w)) = None)) \<and>
   (length (resp_content resp) \<le> max_bytes \<longrightarrow>
      get_content (fst (get_request (Inr resp) url max_bytes w)) = Some (resp_text resp) \<and>
      get_filesize (fst (get_request (Inr resp) url max_bytes w)) =
        length (resp_content resp) \<and>
      get_error (fst (get_request (Inr resp) url max_bytes w)) = None)"
  using get_request_large[where max_bytes = max_bytes and resp = resp and url = url and w = w]
    get_request_small[where max_bytes = max_bytes and resp = resp and url = url and w = w]
  by (simp add: MAX_CONTENT_BYTES_def)

theorem get_request_truncates_and_ignores_witness:
  "length (resp_content
      \<lparr> resp_status_code = 200, resp_history = [], resp_url = ''https://example.com'',
        resp_headers = [], resp_content = [0x41, 0xFF, 0x42, 0x43],
        resp_text = [0x41, 0xFFFD, 0x42, 0x43] \<rparr>) > 3 \<and>
   get_content (fst (get_request
      (Inr \<lparr> resp_status_code = 200, resp_history = [], resp_url = ''https://example.com'',
              resp_headers = [], resp_content = [0x41, 0xFF, 0x42, 0x43],
              resp_text = [0x41, 0xFFFD, 0x42, 0x43] \<rparr>)
      ''https://example.com'' 3
      \<lparr> requests = [], cache_file = None :: (string \<rightharpoonup> unit cache_item) option \<rparr>))
     = Some [0x41, 0x42] \<and>
   get_filesize (fst (get_request
      (Inr \<lparr> resp_status_code = 200, resp_history = [], resp_url = ''https://example.com'',
              resp_headers = [], resp_content = [0x41, 0xFF, 0x42, 0x43],
              resp_text = [0x41, 0xFFFD, 0x42, 0x43] \<rparr>)
      ''https://example.com'' 3
      \<lparr> requests = [], cache_file = None :: (string \<rightharpoonup> unit cache_item) option \<rparr>))
     = 4 \<and>
   length (resp_content
      \<lparr> resp_status_code = 200, resp_history = [], resp_url = ''https://example.com'',
        resp_headers = [], resp_content = [0x41, 0xFF, 0x42, 0x43],
        resp_text = [0x41, 0xFFFD, 0x42, 0x43] \<rparr>) \<le> 4 \<and>
   get_content (fst (get_request
      (Inr \<lparr> resp_status_code = 200, resp_history = [], resp_url = ''https://example.com'',
              resp_headers = [], resp_content = [0x41, 0xFF, 0x42, 0x43],
              resp_text = [0x41, 0xFFFD, 0x42, 0x43] \<rparr>)
      ''https://example.com'' 4
      \<lparr> requests = [], cache_file = None :: (string \<rightharpoonup> unit cache_item) option \<rparr>))
     = Some [0x41, 0xFFFD, 0x42, 0x43]"
proof -
  have d: "utf8_decode Ignore (take 3 [0x41, 0xFF, 0x42, 0x43]) = Inr [0x41, 0x42]"
    by (simp add: utf8_step_def)
  from get_request_truncates_and_ignores
         [where resp = "\<lparr> resp_status_code = 200, resp_history = [],
               resp_url = ''https://example.com'',
               resp_headers = [], resp_content = [0x41, 0xFF, 0x42, 0x43],
               resp_text = [0x41, 0xFFFD, 0x42, 0x43] \<rparr>"
            and max_bytes = 3 and url = "''https://example.com''"
            and w = "\<lparr> requests = [],
                      cache_file = None :: (string \<rightharpoonup> unit cache_item) option \<rparr>"]
       get_request_truncates_and_ignores
         [where resp = "\<lparr> resp_status_code = 200, resp_history = [],
               resp_url = ''https://example.com'',
               resp_headers = [], resp_content = [0x41, 0xFF, 0x42, 0x43],
               resp_text = [0x41, 0xFFFD, 0x42, 0x43] \<rparr>"
            and max_bytes = 4 and url = "''https://example.com''"
            and w = "\<lparr> requests = [],
                      cache_file = None :: (string \<rightharpoonup> unit cache_item) option \<rparr>"]
       d
  show ?thesis by simp
qed

section \<open>Properties of the feature extractor\<close>

lemma meta_fold:
  "fold (\<lambda>tag (meta_desc, meta_keywords).
            if attr_get tag ''name'' = Some ''description''
            then (attr_get tag ''content'', meta_keywords)
            else if attr_get tag ''name'' = Some ''keywords''
            then (meta_desc, attr_get tag ''content'')
            else (meta_desc, meta_keywords)) tags (d, k) =
   ((let ts = filter (\<lambda>t. attr_get t ''name'' = Some ''description'') tags
     in if ts = [] then d else attr_get (last ts) ''content''),
    (let ts = filter (\<lambda>t. attr_get t ''name'' = Some ''keywords'') tags
     in if ts = [] then k else attr_get (last ts) ''content''))"
proof (induction tags rule: rev_induct)
  case Nil
  then show ?case by simp
next
  case (snoc x xs)
  then show ?case by (simp add: Let_def)
qed

text \<open>
  Claim C7, as stated, fails: on a page with two meta tags named \<open>description\<close> the
  extractor reports the content of the second one, not of the first.
\<close>

theorem first_meta_counterexample:
  "meta_description (extract_html_features
     [Element ''head'' []
        [Element ''meta'' [(''name'', ''description''), (''content'', ''first'')] [],
         Element ''meta'' [(''name'', ''description''), (''content'', ''second'')] []]])
     = Some ''second'' \<and>
   attr_get (hd (metas_named ''description''
     [Element ''head'' []
        [Element ''meta'' [(''name'', ''description''), (''content'', ''first'')] [],
         Element ''meta'' [(''name'', ''description''), (''content'', ''second'')] []]]))
     ''content'' = Some ''first''"
  by code_simp

text \<open>
  Claim C7, amended. For every document, the meta description (respectively the meta
  keywords) that \<open>extract_html_features\<close> reports is the \<open>content\<close> attribute of the
  last meta tag in document order whose \<open>name\<close> attribute equals \<open>description\<close>
  (respectively \<open>keywords\<close>), compared as written, and nothing when there is no such
  tag.
\<close>

theorem meta_is_content_of_last_match:
  "meta_description (extract_html_features soup) =
     (if metas_named ''description'' soup = [] then None
      else attr_get (last (metas_named ''description'' soup)) ''content'') \<and>
   meta_keywords (extract_html_features soup) =
     (if metas_named ''keywords'' soup = [] then None
      else attr_get (last (metas_named ''keywords'' soup)) ''content'')"
  by (simp add: extract_html_features_def meta_fold metas_named_def Let_def)

section \<open>Properties of the scan endpoint\<close>

lemma head_request_world:
  "snd (head_request ch url w) = w\<lparr> requests := requests w @ [(HEAD, url)] \<rparr>"
  by (simp add: head_request_def Let_def)

lemma get_request_world:
  "snd (get_request cg url m w) = w\<lparr> requests := requests w @ [(GET, url)] \<rparr>"
  by (simp add: get_request_def Let_def)

lemma fetch_url_data_ok:
  assumes "urlparse url = Inr p" "parsed_scheme p \<in> {''http'', ''https''}"
  shows "fetch_url_data urlparse ch cg url True w =
     (Inr \<lparr> fetch_url = url,
            fetch_normalized_url =
              (let g = fst (get_request cg url MAX_CONTENT_BYTES w);
                   h = fst (head_request ch url w)
               in if get_final_url g \<noteq> [] then get_final_url g
                  else if head_final_url h \<noteq> [] then head_final_url h else url),
            fetch_error = None,
            fetch_head = Present (fst (head_request ch url w)),
            fetch_get = Present (fst (get_request cg url MAX_CONTENT_BYTES w)) \<rparr>,
      w\<lparr> requests := requests w @ [(HEAD, url), (GET, url)] \<rparr>)"
proof -
  have g: "get_request cg url MAX_CONTENT_BYTES (w\<lparr> requests := requests w @ [(HEAD, url)] \<rparr>)
        = (fst (get_request cg url MAX_CONTENT_BYTES w), w\<lparr> requests := requests w @ [(HEAD, url), (GET, url)] \<rparr>)"
    by (simp add: get_request_def Let_def)
  have h: "head_request ch url w = (fst (head_request ch url w), w\<lparr> requests := requests w @ [(HEAD, url)] \<rparr>)"
    by (simp add: head_request_def Let_def)
  show ?thesis
    using assms unfolding fetch_url_data_def
    apply (simp only: sum.case)
    apply (subst h)
    apply (simp only: prod.case if_True Let_def g)
    apply (auto simp: Let_def)
    done
qed

lemma scan_invalid:
  "validate_and_normalize urlparse tldextract url = Inr (Invalid reason) \<Longrightarrow>
   scan urlparse tldextract html_parser ch cg url w = (Inr (Invalid_url reason), w)"
  by (simp add: scan_def)

lemma scan_raises:
  "validate_and_normalize urlparse tldextract url = Inl e \<Longrightarrow>
   scan urlparse tldextract html_parser ch cg url w = (Inl e, w)"
  by (simp add: scan_def)

lemma scan_valid:
  assumes v: "validate_and_normalize urlparse tldextract url = Inr (Valid n)"
  shows "\<exists>fd risk g.
     g = fst (get_request cg n MAX_CONTENT_BYTES w) \<and>
     fetch_url_data urlparse ch cg n True w =
       (Inr fd, w\<lparr> requests := requests w @ [(HEAD, n), (GET, n)] \<rparr>) \<and>
     fetch_get fd = Present g \<and>
     compute_heuristic_score urlparse fd (scan_features html_parser g) n None None = Inr risk \<and>
     scan urlparse tldextract html_parser ch cg url w =
       (Inr (Scanned \<lparr> s_url = n, s_verdict = verdict risk, s_score = score risk,
                        s_title = title (scan_features html_parser g),
                        s_final_url = get_final_url g, s_filesize = get_filesize g,
                        s_explanations = take 3 (explanations risk) \<rparr>),
        w\<lparr> requests := requests w @ [(HEAD, n), (GET, n)] \<rparr>)"
proof -
  define g where "g = fst (get_request cg n MAX_CONTENT_BYTES w)"
  from validate_valid_iff[OF v] obtain p where
    p: "urlparse n = Inr p" "parsed_scheme p \<in> {''http'', ''https''}" by blast
  define fd where "fd = \<lparr> fetch_url = n,
            fetch_normalized_url =
              (let g = fst (get_request cg n MAX_CONTENT_BYTES w);
                   h = fst (head_request ch n w)
               in if get_final_url g \<noteq> [] then get_final_url g
                  else if head_final_url h \<noteq> [] then head_final_url h else n),
            fetch_error = None,
            fetch_head = Present (fst (head_request ch n w)),
            fetch_get = Present (fst (get_request cg n MAX_CONTENT_BYTES w)) \<rparr>"
  have f: "fetch_url_data urlparse ch cg n True w =
       (Inr fd, w\<lparr> requests := requests w @ [(HEAD, n), (GET, n)] \<rparr>)"
    unfolding fd_def using p by (rule fetch_url_data_ok[where urlparse = urlparse and url = n and p = p])
  have fg: "fetch_get fd = Present g" "fetch_head fd \<noteq> Null" "fetch_get fd \<noteq> Null"
    by (simp_all add: fd_def g_def)
  obtain risk where
    r: "compute_heuristic_score urlparse fd (scan_features html_parser g) n None None = Inr risk"
    using compute_heuristic_score_range[where urlparse = urlparse and url = n and parsed = p
        and fetch = fd and vt = None and gsb = None and ex = "scan_features html_parser g"]
      p(1) fg(2,3)
    by (auto simp: vt_counts_nonneg_def)
  have ex: "(if get_error g \<noteq> None \<and> get_error g \<noteq> Some []
             then Inr empty_features
             else (let html = (case get_content g of None \<Rightarrow> [] | Some c \<Rightarrow> c)
                   in Inr (extract_html_features (html_parser html))))
            = Inr (scan_features html_parser g)"
    by (simp add: scan_features_def Let_def)
  have "scan urlparse tldextract html_parser ch cg url w =
       (Inr (Scanned \<lparr> s_url = n, s_verdict = verdict risk, s_score = score risk,
                        s_title = title (scan_features html_parser g),
                        s_final_url = get_final_url g, s_filesize = get_filesize g,
                        s_explanations = take 3 (explanations risk) \<rparr>),
        w\<lparr> requests := requests w @ [(HEAD, n), (GET, n)] \<rparr>)"
    unfolding scan_def
    by (simp only: v sum.case validation.case f prod.case fg(1) entry_field_def entry.case
          ex r)
  with f fg(1) r g_def show ?thesis by blast
qed

lemma scan_cache_file:
  "cache_file (snd (scan urlparse tldextract html_parser ch cg url w)) = cache_file w"
proof (cases "validate_and_normalize urlparse tldextract url")
  case (Inl e)
  then show ?thesis by (simp add: scan_raises)
next
  case (Inr v)
  show ?thesis
  proof (cases v)
    case (Invalid reason)
    with Inr show ?thesis by (simp add: scan_invalid)
  next
    case (Valid n)
    with Inr have "validate_and_normalize urlparse tldextract url = Inr (Valid n)" by simp
    from scan_valid[OF this, where ch = ch and cg = cg and w = w and html_parser = html_parser]
    show ?thesis by auto
  qed
qed

text \<open>
  Claim C2, as stated, fails: \<open>scan\<close> never reads or writes the cache. Two scans of
  \<open>example.com\<close> in a row issue four requests, a HEAD and a GET each, and the cache
  file, absent before, is still absent after them, so \<open>cache_get\<close> has nothing to
  return.
\<close>

theorem scan_twice_fetches_twice_counterexample:
  "requests (snd (scan sample_urlparse sample_tldextract sample_html_parser
                    sample_outcome sample_outcome ''example.com''
               (snd (scan sample_urlparse sample_tldextract sample_html_parser
                       sample_outcome sample_outcome ''example.com''
                       \<lparr> requests = [],
                         cache_file = None :: (string \<rightharpoonup> unit cache_item) option \<rparr>))))
     = [(HEAD, ''https://example.com''), (GET, ''https://example.com''),
        (HEAD, ''https://example.com''), (GET, ''https://example.com'')] \<and>
   cache_file (snd (scan sample_urlparse sample_tldextract sample_html_parser
                    sample_outcome sample_outcome ''example.com''
               (snd (scan sample_urlparse sample_tldextract sample_html_parser
                       sample_outcome sample_outcome ''example.com''
                       \<lparr> requests = [],
                         cache_file = None :: (string \<rightharpoonup> unit cache_item) option \<rparr>))))
     = None"
proof -
  have v: "validate_and_normalize sample_urlparse sample_tldextract ''example.com'' =
             Inr (Valid ''https://example.com'')"
    by code_simp
  have r: "requests (snd (scan sample_urlparse sample_tldextract sample_html_parser
                            sample_outcome sample_outcome ''example.com'' w))
           = requests w @ [(HEAD, ''https://example.com''), (GET, ''https://example.com'')]"
    for w :: "unit world"
    using scan_valid[OF v, where ch = sample_outcome and cg = sample_outcome and w = w
                       and html_parser = sample_html_parser]
    by auto
  show ?thesis by (simp add: r scan_cache_file)
qed

text \<open>
  Claim C2, amended. \<open>scan\<close> performs no cache lookup and no cache store: for every
  URL it leaves the cache file as it is; for a URL that the validator accepts it
  issues one HEAD and one GET request for the normalised URL on every call, also on a
  repeated scan of the same URL, and returns the summary of fetch, extract and score;
  for a URL that the validator rejects it issues no request.
\<close>

theorem scan_does_not_use_cache:
  "cache_file (snd (scan urlparse tldextract html_parser ch cg url w)) = cache_file w \<and>
   (validate_and_normalize urlparse tldextract url = Inr (Valid n) \<longrightarrow>
      (\<exists>fd risk g.
         g = fst (get_request cg n MAX_CONTENT_BYTES w) \<and>
         fetch_url_data urlparse ch cg n True w =
           (Inr fd, w\<lparr> requests := requests w @ [(HEAD, n), (GET, n)] \<rparr>) \<and>
         fetch_get fd = Present g \<and>
         compute_heuristic_score urlparse fd (scan_features html_parser g) n None None
           = Inr risk \<and>
         scan urlparse tldextract html_parser ch cg url w =
           (Inr (Scanned \<lparr> s_url = n, s_verdict = verdict risk, s_score = score risk,
                            s_title = title (scan_features html_parser g),
                            s_final_url = get_final_url g, s_filesize = get_filesize g,
                            s_explanations = take 3 (explanations risk) \<rparr>),
            w\<lparr> requests := requests w @ [(HEAD, n), (GET, n)] \<rparr>))) \<and>
   (validate_and_normalize urlparse tldextract url = Inr (Invalid reason) \<longrightarrow>
      scan urlparse tldextract html_parser ch cg url w = (Inr (Invalid_url reason), w))"
  using scan_cache_file[where urlparse = urlparse and tldextract = tldextract
                          and html_parser = html_parser and ch = ch and cg = cg
                          and url = url and w = w]
    scan_valid[where urlparse = urlparse and tldextract = tldextract and url = url and n = n
                 and ch = ch and cg = cg and w = w and html_parser = html_parser]
    scan_invalid[where urlparse = urlparse and tldextract = tldextract and url = url
                   and reason = reason and html_parser = html_parser and ch = ch
                   and cg = cg and w = w]
  by blast

theorem scan_does_not_use_cache_witness:
  "validate_and_normalize sample_urlparse sample_tldextract ''example.com'' =
     Inr (Valid ''https://example.com'') \<and>
   requests (snd (scan sample_urlparse sample_tldextract sample_html_parser
                    sample_outcome sample_outcome ''example.com''
                    \<lparr> requests = [],
                      cache_file = None :: (string \<rightharpoonup> unit cache_item) option \<rparr>))
     = [(HEAD, ''https://example.com''), (GET, ''https://example.com'')] \<and>
   validate_and_normalize sample_urlparse sample_tldextract ''javascript:alert(1)'' =
     Inr (Invalid ''Invalid URL format'') \<and>
   scan sample_urlparse sample_tldextract sample_html_parser
        sample_outcome sample_outcome ''javascript:alert(1)''
        \<lparr> requests = [], cache_file = None :: (string \<rightharpoonup> unit cache_item) option \<rparr>
     = (Inr (Invalid_url ''Invalid URL format''),
        \<lparr> requests = [], cache_file = None \<rparr>)"
proof -
  have v: "validate_and_normalize sample_urlparse sample_tldextract ''example.com'' =
             Inr (Valid ''https://example.com'')"
    by code_simp
  have i: "validate_and_normalize sample_urlparse sample_tldextract ''javascript:alert(1)'' =
             Inr (Invalid ''Invalid URL format'')"
    by code_simp
  from scan_does_not_use_cache
         [where urlparse = sample_urlparse and tldextract = sample_tldextract
            and html_parser = sample_html_parser and ch = sample_outcome
            and cg = sample_outcome and url = "''example.com''"
            and n = "''https://example.com''"
            and w = "\<lparr> requests = [],
                      cache_file = None :: (string \<rightharpoonup> unit cache_item) option \<rparr>"]
       scan_does_not_use_cache
         [where urlparse = sample_urlparse and tldextract = sample_tldextract
            and html_parser = sample_html_parser and ch = sample_outcome
            and cg = sample_outcome and url = "''javascript:alert(1)''"
            and reason = "''Invalid URL format''"
            and w = "\<lparr> requests = [],
                      cache_file = None :: (string \<rightharpoonup> unit cache_item) option \<rparr>"]
       v i
  show ?thesis by auto
qed

end
